theory Spec2Isabelle
  imports Complex_Main "HOL-Library.Word"
begin

section \<open>The mixed-mode EBM level 3 solver (MixA3Solver)\<close>

text \<open>
  A shallow embedding of \<^verbatim>\<open>src/solver/mixA3/mixA3.cc\<close>. A PETSc \<^verbatim>\<open>Vec\<close>, and the array
  that \<^verbatim>\<open>VecGetArray\<close> hands out, is a \<open>real list\<close>; \<^verbatim>\<open>PetscScalar\<close> and \<^verbatim>\<open>PetscReal\<close>
  are modelled by \<open>real\<close>, so rounding, infinities and NaN are outside the model (in HOL
  \<open>x / 0 = 0\<close>). Reading or writing a C array out of range is undefined behaviour; the
  theorems below ask for indices within the vector where they depend on it.
\<close>

subsection \<open>Vectors\<close>

type_synonym Vec = "real list"

text \<open>\<^verbatim>\<open>VecZeroEntries(v)\<close>: every entry becomes 0.\<close>

definition VecZeroEntries :: "Vec \<Rightarrow> Vec" where
  "VecZeroEntries v = map (\<lambda>_. 0) v"

text \<open>\<^verbatim>\<open>VecAXPY(y, a, x)\<close>: \<open>y \<leftarrow> y + a\<cdot>x\<close>.\<close>

definition VecAXPY :: "Vec \<Rightarrow> real \<Rightarrow> Vec \<Rightarrow> Vec" where
  "VecAXPY y a x = map2 (\<lambda>yi xi. yi + a * xi) y x"

subsection \<open>The solver's configuration (\<^verbatim>\<open>SolverSpecify\<close>)\<close>

datatype TemporalScheme = BDF1 | BDF2

record SolverSpecify =
  dt :: real
  dt_last :: real
  dt_last_last :: real
  TS_rtol :: real
  TS_atol :: real
  TS_type :: TemporalScheme
  BDF2_LowerOrder :: bool
  TimeDependent :: bool

subsection \<open>\<^verbatim>\<open>LTE_norm\<close>: the predictor and the error vector\<close>

text \<open>
  The three coefficients of the higher-order predictor, lines 626 to 628.
\<close>

definition LTE_cn :: "real \<Rightarrow> real \<Rightarrow> real \<Rightarrow> real" where
  "LTE_cn hn hn1 hn2 = 1 + hn * (hn + 2 * hn1 + hn2) / (hn1 * (hn1 + hn2))"

definition LTE_cn1 :: "real \<Rightarrow> real \<Rightarrow> real \<Rightarrow> real" where
  "LTE_cn1 hn hn1 hn2 = - hn * (hn + hn1 + hn2) / (hn1 * hn2)"

definition LTE_cn2 :: "real \<Rightarrow> real \<Rightarrow> real \<Rightarrow> real" where
  "LTE_cn2 hn hn1 hn2 = hn * (hn + hn1) / (hn2 * (hn1 + hn2))"

text \<open>
  Lines 595 to 636: \<open>xp\<close> and \<open>LTE\<close> are zeroed and then filled by \<^verbatim>\<open>VecAXPY\<close>, along
  the branch that \<open>TS_type\<close> and \<open>BDF2_LowerOrder\<close> select. The result is the pair
  \<open>(xp, LTE)\<close>.
\<close>

definition LTE_predict ::
  "SolverSpecify \<Rightarrow> Vec \<Rightarrow> Vec \<Rightarrow> Vec \<Rightarrow> Vec \<Rightarrow> Vec \<Rightarrow> Vec \<Rightarrow> Vec \<times> Vec" where
  "LTE_predict S x x_n x_n1 x_n2 xp LTE =
     (let hn = dt S; hn1 = dt_last S; hn2 = dt_last_last S;
          xp0 = VecZeroEntries xp;
          LTE0 = VecZeroEntries LTE
      in case TS_type S of
           BDF1 \<Rightarrow>
             (let xp1 = VecAXPY xp0 (1 + hn / hn1) x_n;
                  xp2 = VecAXPY xp1 (- hn / hn1) x_n1;
                  LTE1 = VecAXPY LTE0 (hn / (hn + hn1)) x;
                  LTE2 = VecAXPY LTE1 (- hn / (hn + hn1)) xp2
              in (xp2, LTE2))
         | BDF2 \<Rightarrow>
             if BDF2_LowerOrder S then
               (let xp1 = VecAXPY xp0 (1 + hn / hn1) x_n;
                    xp2 = VecAXPY xp1 (- hn / hn1) x_n1;
                    LTE1 = VecAXPY LTE0 (hn / (hn + hn1)) x;
                    LTE2 = VecAXPY LTE1 (- hn / (hn + hn1)) xp2
                in (xp2, LTE2))
             else
               (let cn = LTE_cn hn hn1 hn2;
                    cn1 = LTE_cn1 hn hn1 hn2;
                    cn2 = LTE_cn2 hn hn1 hn2;
                    xp1 = VecAXPY xp0 cn x_n;
                    xp2 = VecAXPY xp1 cn1 x_n1;
                    xp3 = VecAXPY xp2 cn2 x_n2;
                    LTE1 = VecAXPY LTE0 (hn / (hn + hn1 + hn2)) x;
                    LTE2 = VecAXPY LTE1 (- hn / (hn + hn1 + hn2)) xp3
                in (xp3, LTE2)))"

subsection \<open>Regions, nodes and their data\<close>

text \<open>
  The classes these records stand for are declared outside the files at hand; the records
  carry exactly what \<^verbatim>\<open>mixA3.cc\<close> reads from them. \<open>region_type\<close> is the source's
  \<^verbatim>\<open>region->type()\<close>, \<open>on_processor_nodes\<close> the range between
  \<^verbatim>\<open>on_processor_nodes_begin()\<close> and \<^verbatim>\<open>on_processor_nodes_end()\<close>, and the fields of
  \<open>FVM_NodeData\<close> the accessors \<^verbatim>\<open>n()\<close>, \<^verbatim>\<open>n_last()\<close>, \<^verbatim>\<open>p()\<close>, ... of the node data.
  \<open>InvalidRegion\<close> stands for every region type that the \<^verbatim>\<open>switch\<close> statements of the
  source send to \<^verbatim>\<open>default: genius_error()\<close>.
\<close>

datatype SimulationRegionType =
  SemiconductorRegion | InsulatorRegion | ElectrodeRegion | MetalRegion | VacuumRegion
  | InvalidRegion

datatype SolutionVariable = POTENTIAL | ELECTRON | HOLE | TEMPERATURE | E_TEMP | H_TEMP

record AdvancedModel =
  enable_Tl :: bool
  enable_Tn :: bool
  enable_Tp :: bool

record FVM_NodeData =
  data_n :: real
  data_n_last :: real
  data_p :: real
  data_p_last :: real
  data_T :: real
  data_T_last :: real
  data_Tn :: real
  data_Tn_last :: real
  data_Tp :: real
  data_Tp_last :: real

record FVM_Node =
  local_offset :: nat
  node_data :: FVM_NodeData

record SimulationRegion =
  region_type :: SimulationRegionType
  ebm_variable_offset :: "SolutionVariable \<Rightarrow> nat"
  ebm_n_variables :: nat
  get_advanced_model :: AdvancedModel
  on_processor_nodes :: "FVM_Node list"

subsection \<open>Reductions over the processors\<close>

text \<open>
  The solver runs as one process per processor; the model follows one of them. A
  reduction \<^verbatim>\<open>Parallel::sum(v)\<close> or \<^verbatim>\<open>Parallel::max(v)\<close> combines the local value with the
  values \<open>remote\<close> that the other processors contribute, and every processor ends with
  the same result.
\<close>

definition Parallel_sum :: "'a::monoid_add list \<Rightarrow> 'a \<Rightarrow> 'a" where
  "Parallel_sum remote v = v + sum_list remote"

definition Parallel_max :: "real list \<Rightarrow> real \<Rightarrow> real" where
  "Parallel_max remote v = fold max remote v"

subsection \<open>\<^verbatim>\<open>BDF2_positive_defined\<close>\<close>

text \<open>Lines 549 to 551: the three constants of the test.\<close>

definition BDF2_r :: "SolverSpecify \<Rightarrow> real" where
  "BDF2_r S = dt_last S / (dt_last S + dt S)"

definition BDF2_a :: "SolverSpecify \<Rightarrow> real" where
  "BDF2_a S = 1 / (BDF2_r S * (1 - BDF2_r S))"

definition BDF2_b :: "SolverSpecify \<Rightarrow> real" where
  "BDF2_b S = (1 - BDF2_r S) / BDF2_r S"

text \<open>
  Lines 567 to 577, the body of the loop over the nodes: each violated inequality adds
  one to \<^verbatim>\<open>unsigned int failure_count\<close>, a 32-bit counter.
\<close>

definition BDF2_node_failures ::
  "real \<Rightarrow> real \<Rightarrow> AdvancedModel \<Rightarrow> FVM_NodeData \<Rightarrow> 32 word \<Rightarrow> 32 word" where
  "BDF2_node_failures a b am d failure_count =
     (let c1 = (if a * data_n d < b * data_n_last d then failure_count + 1 else failure_count);
          c2 = (if a * data_p d < b * data_p_last d then c1 + 1 else c1);
          c3 = (if enable_Tl am
                then (if a * data_T d < b * data_T_last d then c2 + 1 else c2)
                else c2);
          c4 = (if enable_Tn am
                then (if a * data_n d * data_Tn d < b * data_n_last d * data_Tn_last d
                      then c3 + 1 else c3)
                else c3);
          c5 = (if enable_Tp am
                then (if a * data_p d * data_Tp d < b * data_p_last d * data_Tp_last d
                      then c4 + 1 else c4)
                else c4)
      in c5)"

text \<open>Lines 557 to 579, the body of the loop over the regions.\<close>

definition BDF2_region_failures ::
  "real \<Rightarrow> real \<Rightarrow> SimulationRegion \<Rightarrow> 32 word \<Rightarrow> 32 word" where
  "BDF2_region_failures a b region failure_count =
     (if region_type region = SemiconductorRegion
      then fold (\<lambda>fvm_node. BDF2_node_failures a b (get_advanced_model region)
                   (node_data fvm_node))
             (on_processor_nodes region) failure_count
      else failure_count)"

text \<open>
  The function, lines 547 to 584. \<open>remote\<close> holds the failure counts of the other
  processors, which \<^verbatim>\<open>Parallel::sum\<close> adds; the value returned is
  \<^verbatim>\<open>failure_count != 0\<close>.
\<close>

definition BDF2_positive_defined ::
  "SolverSpecify \<Rightarrow> SimulationRegion list \<Rightarrow> 32 word list \<Rightarrow> bool" where
  "BDF2_positive_defined S regions remote =
     (let a = BDF2_a S; b = BDF2_b S;
          failure_count = fold (BDF2_region_failures a b) regions 0
      in Parallel_sum remote failure_count \<noteq> 0)"

subsection \<open>Physical units and the circuit\<close>

text \<open>
  The constants of \<^verbatim>\<open>PhysicalUnit\<close> that the file uses (\<^verbatim>\<open>kb\<close>, \<^verbatim>\<open>e\<close>, \<^verbatim>\<open>cm\<close>, \<^verbatim>\<open>K\<close>) are
  set outside the files at hand; the functions take them as a parameter.
\<close>

record PhysicalUnit =
  unit_kb :: real
  unit_e :: real
  unit_cm :: real
  unit_K :: real

text \<open>\<^verbatim>\<open>const PetscScalar onePerCMC = 1.0*std::pow(cm,-3)\<close>.\<close>

definition onePerCMC :: "PhysicalUnit \<Rightarrow> real" where
  "onePerCMC U = 1 * inverse (unit_cm U ^ 3)"

text \<open>
  What the file asks of the circuit \<^verbatim>\<open>_circuit\<close>: the number of its nodes, their kind and
  their rows in the solution and in the residual. The class is defined outside the
  files at hand; \<open>ckt_solution\<close> stands for the nodal state it owns and
  \<open>ckt_saved_solution\<close> for the snapshot of that state.
\<close>

record SPICE_CKT =
  n_ckt_nodes :: nat
  is_voltage_node :: "nat \<Rightarrow> bool"
  is_current_node :: "nat \<Rightarrow> bool"
  array_offset_x :: "nat \<Rightarrow> nat"
  array_offset_f :: "nat \<Rightarrow> nat"
  ckt_solution :: Vec
  ckt_saved_solution :: Vec

text \<open>
  Modelled from the spec: \<^verbatim>\<open>save_solution\<close> of the circuit, defined outside the files at
  hand. The spec: the circuit "owns its nodal state independently and is snapshotted
  symmetrically with X on solver events (save on accept, restore on divergence
  rollback)". Saving copies the nodal state into the snapshot.
\<close>

definition save_solution :: "SPICE_CKT \<Rightarrow> SPICE_CKT" where
  "save_solution ckt = ckt\<lparr>ckt_saved_solution := ckt_solution ckt\<rparr>"

text \<open>
  Modelled from the spec: \<^verbatim>\<open>restore_solution\<close> of the circuit, defined outside the files
  at hand; by the same sentence of the spec, restoring copies the snapshot back into the
  nodal state.
\<close>

definition restore_solution :: "SPICE_CKT \<Rightarrow> SPICE_CKT" where
  "restore_solution ckt = ckt\<lparr>ckt_solution := ckt_saved_solution ckt\<rparr>"

subsection \<open>The clips shared by the damping routines\<close>

text \<open>
  The blocks below occur, statement for statement, in \<^verbatim>\<open>potential_damping\<close> (lines 246 to
  278) and in \<^verbatim>\<open>positive_density_damping\<close> (lines 419 to 451); \<open>ww\<close> is the candidate
  iterate, \<open>xx\<close> the previous one.

  \<^verbatim>\<open>if ( ww[i] < onePerCMC ) ww[i] = onePerCMC;\<close>
\<close>

definition limit_carrier_density :: "PhysicalUnit \<Rightarrow> nat \<Rightarrow> Vec \<Rightarrow> Vec" where
  "limit_carrier_density U i ww = (if ww ! i < onePerCMC U then ww[i := onePerCMC U] else ww)"

text \<open>\<^verbatim>\<open>if ( ww[i] < T_external - 50*K ) ww[i] = T_external - 50*K;\<close>\<close>

definition limit_lattice_temperature :: "PhysicalUnit \<Rightarrow> real \<Rightarrow> nat \<Rightarrow> Vec \<Rightarrow> Vec" where
  "limit_lattice_temperature U T_external i ww =
     (if ww ! i < T_external - 50 * unit_K U then ww[i := T_external - 50 * unit_K U]
      else ww)"

text \<open>
  The carrier temperature: \<open>ic\<close> is the row of the carrier density and \<open>iT\<close> the row of
  density times temperature.
  \<^verbatim>\<open>
  PetscScalar n0=xx[ic];
  PetscScalar n1=ww[ic];
  PetscScalar T0=xx[iT]/n0;
  PetscScalar T1=T0*(1-std::min(n1/n0,2.0)) + ww[iT]/n0;
  if (T1 < 0.9*T_external) T1 = 0.9*T_external;
  ww[iT] = T1*n1;
  \<close>
\<close>

definition carrier_T1 :: "real \<Rightarrow> real \<Rightarrow> real \<Rightarrow> real \<Rightarrow> real \<Rightarrow> real" where
  "carrier_T1 T_external n0 n1 w0 w1 =
     (let T0 = w0 / n0;
          T1 = T0 * (1 - min (n1 / n0) 2) + w1 / n0
      in if T1 < 0.9 * T_external then 0.9 * T_external else T1)"

definition limit_carrier_temperature :: "real \<Rightarrow> Vec \<Rightarrow> nat \<Rightarrow> nat \<Rightarrow> Vec \<Rightarrow> Vec" where
  "limit_carrier_temperature T_external xx ic iT ww =
     (let n0 = xx ! ic;
          n1 = ww ! ic;
          T1 = carrier_T1 T_external n0 n1 (xx ! iT) (ww ! iT)
      in ww[iT := T1 * n1])"

text \<open>The three temperature blocks in the order of the source, for one node.\<close>

definition limit_temperatures ::
  "PhysicalUnit \<Rightarrow> real \<Rightarrow> Vec \<Rightarrow> SimulationRegion \<Rightarrow> nat \<Rightarrow> Vec \<Rightarrow> Vec" where
  "limit_temperatures U T_external xx region offset ww =
     (let node_n_offset = ebm_variable_offset region ELECTRON;
          node_p_offset = ebm_variable_offset region HOLE;
          node_Tl_offset = ebm_variable_offset region TEMPERATURE;
          node_Tn_offset = ebm_variable_offset region E_TEMP;
          node_Tp_offset = ebm_variable_offset region H_TEMP;
          ww3 = (if enable_Tl (get_advanced_model region)
                 then limit_lattice_temperature U T_external (offset + node_Tl_offset) ww
                 else ww);
          ww4 = (if enable_Tn (get_advanced_model region)
                 then limit_carrier_temperature T_external xx
                        (offset + node_n_offset) (offset + node_Tn_offset) ww3
                 else ww3);
          ww5 = (if enable_Tp (get_advanced_model region)
                 then limit_carrier_temperature T_external xx
                        (offset + node_p_offset) (offset + node_Tp_offset) ww4
                 else ww4)
      in ww5)"

subsection \<open>\<^verbatim>\<open>potential_damping\<close>\<close>

text \<open>Lines 246 to 278: what the first loop does to \<open>ww\<close> at one node.\<close>

definition potential_damping_clip ::
  "PhysicalUnit \<Rightarrow> real \<Rightarrow> Vec \<Rightarrow> SimulationRegion \<Rightarrow> FVM_Node \<Rightarrow> Vec \<Rightarrow> Vec" where
  "potential_damping_clip U T_external xx region fvm_node ww =
     (let node_n_offset = ebm_variable_offset region ELECTRON;
          node_p_offset = ebm_variable_offset region HOLE;
          offset = local_offset fvm_node;
          ww1 = limit_carrier_density U (offset + node_n_offset) ww;
          ww2 = limit_carrier_density U (offset + node_p_offset) ww1
      in limit_temperatures U T_external xx region offset ww2)"

text \<open>
  Lines 237 to 278, the body of the first loop over the nodes: the running maximum
  \<open>dV_max\<close> of \<open>|y\<^sub>\<psi>|\<close> and the clipped \<open>ww\<close>.
\<close>

definition potential_damping_node ::
  "PhysicalUnit \<Rightarrow> real \<Rightarrow> Vec \<Rightarrow> Vec \<Rightarrow> SimulationRegion \<Rightarrow> FVM_Node \<Rightarrow> real \<times> Vec
     \<Rightarrow> real \<times> Vec" where
  "potential_damping_node U T_external xx yy region fvm_node st =
     (let node_psi_offset = ebm_variable_offset region POTENTIAL;
          offset = local_offset fvm_node;
          dV_max = fst st;
          dV_max' = (if \<bar>yy ! (offset + node_psi_offset)\<bar> > dV_max
                     then \<bar>yy ! (offset + node_psi_offset)\<bar> else dV_max)
      in (dV_max', potential_damping_clip U T_external xx region fvm_node (snd st)))"

text \<open>Lines 220 to 280: the first loop; only semiconductor regions are visited.\<close>

definition potential_damping_scan ::
  "PhysicalUnit \<Rightarrow> real \<Rightarrow> SimulationRegion list \<Rightarrow> Vec \<Rightarrow> Vec \<Rightarrow> Vec \<Rightarrow> real \<times> Vec" where
  "potential_damping_scan U T_external regions xx yy ww =
     fold (\<lambda>region st.
             if region_type region \<noteq> SemiconductorRegion then st
             else fold (potential_damping_node U T_external xx yy region)
                    (on_processor_nodes region) st)
       regions (0, ww)"

text \<open>
  Lines 292 to 310: the second loop. The test of the region type is commented out in
  the source, so the nodes of every region are visited.
\<close>

definition potential_damping_psi ::
  "real \<Rightarrow> SimulationRegion list \<Rightarrow> Vec \<Rightarrow> Vec \<Rightarrow> Vec \<Rightarrow> Vec" where
  "potential_damping_psi f regions xx yy ww =
     fold (\<lambda>region.
             fold (\<lambda>fvm_node ww'.
                     ww'[local_offset fvm_node + ebm_variable_offset region POTENTIAL :=
                           xx ! (local_offset fvm_node + ebm_variable_offset region POTENTIAL)
                           - f * yy ! (local_offset fvm_node
                                       + ebm_variable_offset region POTENTIAL)])
               (on_processor_nodes region))
       regions ww"

text \<open>Lines 318 to 338, the body of the loop over the circuit nodes.\<close>

definition potential_damping_ckt_node :: "SPICE_CKT \<Rightarrow> Vec \<Rightarrow> Vec \<Rightarrow> nat \<Rightarrow> Vec \<Rightarrow> Vec" where
  "potential_damping_ckt_node ckt xx yy n ww =
     (let ww1 = (if is_voltage_node ckt n
                 then (let dV_max = \<bar>yy ! array_offset_x ckt n\<bar>
                       in if dV_max > 5
                          then ww[array_offset_x ckt n :=
                                    xx ! array_offset_x ckt n
                                    - 5 / dV_max * yy ! array_offset_x ckt n]
                          else ww)
                 else ww)
      in if is_current_node ckt n
         then (let dI_max = \<bar>yy ! array_offset_x ckt n\<bar>
               in if dI_max > 1
                  then ww1[array_offset_x ckt n :=
                             xx ! array_offset_x ckt n
                             - 1 / dI_max * yy ! array_offset_x ckt n]
                  else ww1)
         else ww1)"

text \<open>The damping factor of lines 288 and 289.\<close>

definition potential_damping_factor :: "PhysicalUnit \<Rightarrow> real \<Rightarrow> real \<Rightarrow> real" where
  "potential_damping_factor U T_external dV_max =
     (let Vt = unit_kb U * T_external / unit_e U
      in ln (1 + dV_max / Vt) / (dV_max / Vt))"

text \<open>
  The function, lines 203 to 350. \<open>remote\<close> holds the local maxima of the other
  processors, which \<^verbatim>\<open>Parallel::max\<close> folds in. The result is the candidate iterate and
  the two flags \<^verbatim>\<open>*changed_y\<close>, \<^verbatim>\<open>*changed_w\<close>.
\<close>

definition potential_damping ::
  "PhysicalUnit \<Rightarrow> real \<Rightarrow> SimulationRegion list \<Rightarrow> SPICE_CKT \<Rightarrow> bool \<Rightarrow> real list
     \<Rightarrow> Vec \<Rightarrow> Vec \<Rightarrow> Vec \<Rightarrow> Vec \<times> bool \<times> bool" where
  "potential_damping U T_external regions ckt is_last_processor remote xx yy ww =
     (let st = potential_damping_scan U T_external regions xx yy ww;
          dV_max = Parallel_max remote (fst st);
          ww2 = (if dV_max > 1 / 10 ^ 6
                 then potential_damping_psi (potential_damping_factor U T_external dV_max)
                        regions xx yy (snd st)
                 else snd st);
          ww3 = (if is_last_processor
                 then fold (potential_damping_ckt_node ckt xx yy) [0..<n_ckt_nodes ckt] ww2
                 else ww2)
      in (ww3, False, True))"

subsection \<open>\<^verbatim>\<open>positive_density_damping\<close>\<close>

text \<open>
  Modelled from the spec: \<^verbatim>\<open>std::sign\<close>, which is not a function of the standard library
  and is defined outside the files at hand. The spec: "Clip \<open>|y\<^sub>\<psi>|\<close> to 1 V per component
  by sign". It is called only where \<open>|y\<^sub>\<psi>| > 1\<close>.
\<close>

definition std_sign :: "real \<Rightarrow> real" where
  "std_sign v = sgn v"

text \<open>
  Lines 403 to 451, the body of the loop over the nodes. The test of line 414 reads
  \<^verbatim>\<open>ww[local_offset+1]\<close> and the assignment writes \<^verbatim>\<open>ww[local_offset + node_n_offset]\<close>.
  \<^verbatim>\<open>changed_flag\<close> is a local variable that is never read.
\<close>

definition positive_density_damping_node ::
  "PhysicalUnit \<Rightarrow> real \<Rightarrow> Vec \<Rightarrow> Vec \<Rightarrow> SimulationRegion \<Rightarrow> FVM_Node \<Rightarrow> Vec \<Rightarrow> Vec" where
  "positive_density_damping_node U T_external xx yy region fvm_node ww =
     (let node_psi_offset = ebm_variable_offset region POTENTIAL;
          node_n_offset = ebm_variable_offset region ELECTRON;
          node_p_offset = ebm_variable_offset region HOLE;
          offset = local_offset fvm_node;
          ww0 = (if \<bar>yy ! (offset + node_psi_offset)\<bar> > 1
                 then ww[offset + node_psi_offset :=
                           xx ! (offset + node_psi_offset)
                           - std_sign (yy ! (offset + node_psi_offset)) * 1]
                 else ww);
          ww1 = (if ww0 ! (offset + 1) < onePerCMC U
                 then ww0[offset + node_n_offset := onePerCMC U]
                 else ww0);
          ww2 = limit_carrier_density U (offset + node_p_offset) ww1
      in limit_temperatures U T_external xx region offset ww2)"

text \<open>The function, lines 370 to 464.\<close>

definition positive_density_damping ::
  "PhysicalUnit \<Rightarrow> real \<Rightarrow> SimulationRegion list \<Rightarrow> Vec \<Rightarrow> Vec \<Rightarrow> Vec
     \<Rightarrow> Vec \<times> bool \<times> bool" where
  "positive_density_damping U T_external regions xx yy ww =
     (let ww' = fold (\<lambda>region ww'.
                        if region_type region \<noteq> SemiconductorRegion then ww'
                        else fold (positive_density_damping_node U T_external xx yy region)
                               (on_processor_nodes region) ww')
                  regions ww
      in (ww', False, True))"

subsection \<open>The layout of the solution vector\<close>

text \<open>
  The variables a region keeps at each node, after the data model of the spec: the
  potential, in a semiconductor region the two carrier densities, and the temperatures
  that the advanced model enables (the lattice temperature in every region, the carrier
  temperatures in a semiconductor region). These are the variables that the loops of
  \<^verbatim>\<open>LTE_norm\<close> and of the damping routines address.
\<close>

definition region_variables :: "SimulationRegion \<Rightarrow> SolutionVariable list" where
  "region_variables region =
     POTENTIAL #
     (if region_type region = SemiconductorRegion then [ELECTRON, HOLE] else []) @
     (if enable_Tl (get_advanced_model region) then [TEMPERATURE] else []) @
     (if region_type region = SemiconductorRegion \<and> enable_Tn (get_advanced_model region)
      then [E_TEMP] else []) @
     (if region_type region = SemiconductorRegion \<and> enable_Tp (get_advanced_model region)
      then [H_TEMP] else [])"

text \<open>
  The row of a variable at a node, \<^verbatim>\<open>fvm_node->local_offset() + region->ebm_variable_offset(v)\<close>,
  the rows of one node, and the on-processor nodes of all regions, each with its region.
\<close>

definition variable_row :: "SimulationRegion \<times> FVM_Node \<Rightarrow> SolutionVariable \<Rightarrow> nat" where
  "variable_row rn v = local_offset (snd rn) + ebm_variable_offset (fst rn) v"

definition node_rows :: "SimulationRegion \<times> FVM_Node \<Rightarrow> nat list" where
  "node_rows rn = map (variable_row rn) (region_variables (fst rn))"

definition region_nodes :: "SimulationRegion list \<Rightarrow> (SimulationRegion \<times> FVM_Node) list" where
  "region_nodes regions =
     concat (map (\<lambda>region. map (Pair region) (on_processor_nodes region)) regions)"

definition device_rows :: "SimulationRegion list \<Rightarrow> nat list" where
  "device_rows regions = concat (map node_rows (region_nodes regions))"

definition circuit_rows_x :: "SPICE_CKT \<Rightarrow> nat list" where
  "circuit_rows_x ckt = map (array_offset_x ckt) [0..<n_ckt_nodes ckt]"

definition circuit_rows_f :: "SPICE_CKT \<Rightarrow> nat list" where
  "circuit_rows_f ckt = map (array_offset_f ckt) [0..<n_ckt_nodes ckt]"

text \<open>
  The local array of length \<open>len\<close> is laid out properly when no two variables share a
  row, the circuit's rows are apart from the device's, and every row is within the array.
\<close>

definition layout_ok :: "SimulationRegion list \<Rightarrow> SPICE_CKT \<Rightarrow> nat \<Rightarrow> bool" where
  "layout_ok regions ckt len =
     (distinct (device_rows regions @ circuit_rows_x ckt)
      \<and> distinct (device_rows regions @ circuit_rows_f ckt)
      \<and> list_all (\<lambda>i. i < len)
          (device_rows regions @ circuit_rows_x ckt @ circuit_rows_f ckt))"

subsection \<open>\<^verbatim>\<open>LTE_norm\<close>: the scaled error and its norm\<close>

text \<open>\<^verbatim>\<open>genius_error()\<close> ends the program; a function that may reach it returns a sum.\<close>

datatype error = GeniusError

text \<open>
  \<^verbatim>\<open>ll[i_f] = ll[i_f]/(eps_r*xx[i_x]+eps_a)\<close>. At a node of a region \<open>i_f\<close> and \<open>i_x\<close> are
  the same row; the circuit has a row for its residual and one for its solution.
\<close>

definition LTE_scale :: "real \<Rightarrow> real \<Rightarrow> Vec \<Rightarrow> nat \<Rightarrow> nat \<Rightarrow> Vec \<Rightarrow> Vec" where
  "LTE_scale eps_r eps_a xx i_f i_x ll = ll[i_f := ll ! i_f / (eps_r * xx ! i_x + eps_a)]"

text \<open>Lines 666 to 681, the body of the loop over the nodes of a semiconductor region.\<close>

definition LTE_semiconductor_node ::
  "real \<Rightarrow> real \<Rightarrow> Vec \<Rightarrow> SimulationRegion \<Rightarrow> FVM_Node \<Rightarrow> Vec \<Rightarrow> Vec" where
  "LTE_semiconductor_node eps_r eps_a xx region fvm_node ll =
     (let node_psi_offset = ebm_variable_offset region POTENTIAL;
          node_n_offset = ebm_variable_offset region ELECTRON;
          node_p_offset = ebm_variable_offset region HOLE;
          node_Tl_offset = ebm_variable_offset region TEMPERATURE;
          node_Tn_offset = ebm_variable_offset region E_TEMP;
          node_Tp_offset = ebm_variable_offset region H_TEMP;
          offset = local_offset fvm_node;
          ll0 = ll[offset + node_psi_offset := 0];
          ll1 = LTE_scale eps_r eps_a xx (offset + node_n_offset) (offset + node_n_offset) ll0;
          ll2 = LTE_scale eps_r eps_a xx (offset + node_p_offset) (offset + node_p_offset) ll1;
          ll3 = (if enable_Tl (get_advanced_model region)
                 then LTE_scale eps_r eps_a xx (offset + node_Tl_offset)
                        (offset + node_Tl_offset) ll2
                 else ll2);
          ll4 = (if enable_Tn (get_advanced_model region)
                 then LTE_scale eps_r eps_a xx (offset + node_Tn_offset)
                        (offset + node_Tn_offset) ll3
                 else ll3)
      in if enable_Tp (get_advanced_model region)
         then LTE_scale eps_r eps_a xx (offset + node_Tp_offset) (offset + node_Tp_offset) ll4
         else ll4)"

text \<open>
  Lines 699 to 706, the body of the loop over the nodes of an insulator, electrode or
  metal region.
\<close>

definition LTE_insulator_node ::
  "real \<Rightarrow> real \<Rightarrow> Vec \<Rightarrow> SimulationRegion \<Rightarrow> FVM_Node \<Rightarrow> Vec \<Rightarrow> Vec" where
  "LTE_insulator_node eps_r eps_a xx region fvm_node ll =
     (let node_psi_offset = ebm_variable_offset region POTENTIAL;
          node_Tl_offset = ebm_variable_offset region TEMPERATURE;
          offset = local_offset fvm_node;
          ll0 = ll[offset + node_psi_offset := 0]
      in if enable_Tl (get_advanced_model region)
         then LTE_scale eps_r eps_a xx (offset + node_Tl_offset) (offset + node_Tl_offset) ll0
         else ll0)"

text \<open>
  Lines 650 to 716, the \<^verbatim>\<open>switch\<close> on the type of a region, acting on the array \<open>ll\<close> and
  the counter \<open>N\<close>. \<^verbatim>\<open>region->n_on_processor_node()\<close> is the number of the nodes that the
  loop visits. \<open>N\<close> is an \<^verbatim>\<open>int\<close> of the source; the model counts in the integers, which
  agrees with the source as long as the count stays below \<open>2\<^sup>3\<^sup>1\<close>.
\<close>

definition LTE_region ::
  "real \<Rightarrow> real \<Rightarrow> Vec \<Rightarrow> SimulationRegion \<Rightarrow> Vec \<times> int \<Rightarrow> error + Vec \<times> int" where
  "LTE_region eps_r eps_a xx region st =
     (case region_type region of
        SemiconductorRegion \<Rightarrow>
          Inr (fold (LTE_semiconductor_node eps_r eps_a xx region)
                 (on_processor_nodes region) (fst st),
               snd st + (int (ebm_n_variables region) - 1)
                        * int (length (on_processor_nodes region)))
      | InsulatorRegion \<Rightarrow>
          Inr (fold (LTE_insulator_node eps_r eps_a xx region)
                 (on_processor_nodes region) (fst st),
               snd st + (int (ebm_n_variables region) - 1)
                        * int (length (on_processor_nodes region)))
      | ElectrodeRegion \<Rightarrow>
          Inr (fold (LTE_insulator_node eps_r eps_a xx region)
                 (on_processor_nodes region) (fst st),
               snd st + (int (ebm_n_variables region) - 1)
                        * int (length (on_processor_nodes region)))
      | MetalRegion \<Rightarrow>
          Inr (fold (LTE_insulator_node eps_r eps_a xx region)
                 (on_processor_nodes region) (fst st),
               snd st + (int (ebm_n_variables region) - 1)
                        * int (length (on_processor_nodes region)))
      | VacuumRegion \<Rightarrow> Inr st
      | InvalidRegion \<Rightarrow> Inl GeniusError)"

text \<open>Lines 648 to 717, the loop over the regions; it stops at the first error.\<close>

fun LTE_regions ::
  "real \<Rightarrow> real \<Rightarrow> Vec \<Rightarrow> SimulationRegion list \<Rightarrow> Vec \<times> int \<Rightarrow> error + Vec \<times> int" where
  "LTE_regions eps_r eps_a xx [] st = Inr st"
| "LTE_regions eps_r eps_a xx (region # regions) st =
     (case LTE_region eps_r eps_a xx region st of
        Inl e \<Rightarrow> Inl e
      | Inr st' \<Rightarrow> LTE_regions eps_r eps_a xx regions st')"

text \<open>Lines 721 to 730, the circuit's nodes, on the last processor only.\<close>

definition LTE_ckt ::
  "real \<Rightarrow> real \<Rightarrow> Vec \<Rightarrow> SPICE_CKT \<Rightarrow> bool \<Rightarrow> Vec \<times> int \<Rightarrow> Vec \<times> int" where
  "LTE_ckt eps_r eps_a xx ckt is_last_processor st =
     (if is_last_processor
      then (fold (\<lambda>n. LTE_scale eps_r eps_a xx (array_offset_f ckt n) (array_offset_x ckt n))
              [0..<n_ckt_nodes ckt] (fst st),
            snd st + int (n_ckt_nodes ckt))
      else st)"

text \<open>Lines 638 to 730: the scaled error vector and the local count \<open>N\<close>.\<close>

definition LTE_scaled ::
  "real \<Rightarrow> real \<Rightarrow> SimulationRegion list \<Rightarrow> SPICE_CKT \<Rightarrow> bool \<Rightarrow> Vec \<Rightarrow> Vec
     \<Rightarrow> error + Vec \<times> int" where
  "LTE_scaled eps_r eps_a regions ckt is_last_processor xx ll =
     (case LTE_regions eps_r eps_a xx regions (ll, 0) of
        Inl e \<Rightarrow> Inl e
      | Inr st \<Rightarrow> Inr (LTE_ckt eps_r eps_a xx ckt is_last_processor st))"

text \<open>
  \<^verbatim>\<open>VecNorm(LTE, NORM_2, &r)\<close>: the 2-norm of the distributed vector. \<open>remote\<close> holds the
  sums of squares of the parts that the other processors own.
\<close>

definition VecNorm_2 :: "real list \<Rightarrow> Vec \<Rightarrow> real" where
  "VecNorm_2 remote v = sqrt (Parallel_sum remote (sum_list (map (\<lambda>c. c * c) v)))"

text \<open>
  The function, lines 590 to 748. It returns the norm; the members \<open>xp\<close> and \<open>LTE\<close> of the
  solver are left as the second and third component of the result. \<open>remote_N\<close> holds
  the counts of the other processors.
\<close>

definition LTE_norm ::
  "SolverSpecify \<Rightarrow> SimulationRegion list \<Rightarrow> SPICE_CKT \<Rightarrow> bool \<Rightarrow> real list \<Rightarrow> int list
     \<Rightarrow> Vec \<Rightarrow> Vec \<Rightarrow> Vec \<Rightarrow> Vec \<Rightarrow> Vec \<Rightarrow> Vec \<Rightarrow> error + real \<times> Vec \<times> Vec" where
  "LTE_norm S regions ckt is_last_processor remote remote_N x x_n x_n1 x_n2 xp LTE =
     (let eps_r = TS_rtol S;
          eps_a = TS_atol S;
          p = LTE_predict S x x_n x_n1 x_n2 xp LTE
      in case LTE_scaled eps_r eps_a regions ckt is_last_processor x (snd p) of
           Inl e \<Rightarrow> Inl e
         | Inr (ll, N_local) \<Rightarrow>
             (let r = VecNorm_2 remote ll;
                  N = Parallel_sum remote_N N_local
              in if N > 0 then Inr (r / sqrt (real_of_int N), fst p, ll)
                 else Inr (1, fst p, ll)))"

text \<open>
  The count of the spec: the components that are not masked, that is the variables other
  than \<open>\<psi>\<close> at the nodes of the regions that are not vacuum and, on the last processor, the
  nodes of the circuit.
\<close>

definition LTE_unmasked_count :: "SimulationRegion list \<Rightarrow> SPICE_CKT \<Rightarrow> bool \<Rightarrow> int" where
  "LTE_unmasked_count regions ckt is_last_processor =
     (\<Sum>rn \<leftarrow> region_nodes regions.
         if region_type (fst rn) = VacuumRegion then 0
         else int (length (region_variables (fst rn))) - 1)
     + (if is_last_processor then int (n_ckt_nodes ckt) else 0)"

text \<open>
  What the loop over the regions does at one node, whatever the type of its region, and
  what it adds to \<open>N\<close> for one region, when no region stops it with an error.
\<close>

definition LTE_node :: "real \<Rightarrow> real \<Rightarrow> Vec \<Rightarrow> SimulationRegion \<times> FVM_Node \<Rightarrow> Vec \<Rightarrow> Vec" where
  "LTE_node eps_r eps_a xx rn ll =
     (case region_type (fst rn) of
        SemiconductorRegion \<Rightarrow> LTE_semiconductor_node eps_r eps_a xx (fst rn) (snd rn) ll
      | InsulatorRegion \<Rightarrow> LTE_insulator_node eps_r eps_a xx (fst rn) (snd rn) ll
      | ElectrodeRegion \<Rightarrow> LTE_insulator_node eps_r eps_a xx (fst rn) (snd rn) ll
      | MetalRegion \<Rightarrow> LTE_insulator_node eps_r eps_a xx (fst rn) (snd rn) ll
      | VacuumRegion \<Rightarrow> ll
      | InvalidRegion \<Rightarrow> ll)"

definition LTE_region_count :: "SimulationRegion \<Rightarrow> int" where
  "LTE_region_count region =
     (if region_type region = VacuumRegion \<or> region_type region = InvalidRegion then 0
      else (int (ebm_n_variables region) - 1) * int (length (on_processor_nodes region)))"

text \<open>
  The largest \<open>|y\<^sub>\<psi>|\<close> over the on-processor nodes of the semiconductor regions, 0 when
  there is none: the spec's \<open>\<Delta>V_max\<close> before the reduction over the processors.
\<close>

definition semiconductor_dV_max :: "SimulationRegion list \<Rightarrow> Vec \<Rightarrow> real" where
  "semiconductor_dV_max regions yy =
     Max (insert 0 ((\<lambda>rn. \<bar>yy ! variable_row rn POTENTIAL\<bar>) `
                     {rn \<in> set (region_nodes regions).
                        region_type (fst rn) = SemiconductorRegion}))"

text \<open>
  A step of a loop is local to the rows \<open>R\<close> when it keeps the length of the array,
  leaves every row outside \<open>R\<close> as it is, and computes the rows in \<open>R\<close> from the rows in
  \<open>R\<close> alone. The steps of the loops over the nodes are local to the rows of their node.
\<close>

definition row_local :: "nat set \<Rightarrow> ('a list \<Rightarrow> 'a list) \<Rightarrow> bool" where
  "row_local R step \<longleftrightarrow>
     (\<forall>v. length (step v) = length v)
     \<and> (\<forall>v i. i \<notin> R \<longrightarrow> step v ! i = v ! i)
     \<and> (\<forall>v v'. length v = length v' \<longrightarrow> (\<forall>i \<in> R. v ! i = v' ! i)
            \<longrightarrow> (\<forall>i \<in> R. step v ! i = step v' ! i))"

subsection \<open>Assembly: the objects the solver drives\<close>

datatype InsertMode = NOT_SET_VALUES | INSERT_VALUES | ADD_VALUES

text \<open>A PETSc \<^verbatim>\<open>Mat\<close> is the list of its rows.\<close>

type_synonym Mat = "real list list"

text \<open>
  The three vectors \<^verbatim>\<open>src_row\<close>, \<^verbatim>\<open>dst_row\<close>, \<^verbatim>\<open>clear_row\<close> that the preprocess
  methods of the boundary conditions append to.
\<close>

type_synonym RowLists = "nat list \<times> nat list \<times> nat list"

text \<open>
  The EBM3 methods of a \<^verbatim>\<open>SimulationRegion\<close> are defined outside the files at hand, so a
  region carries them as functions. \<open>region_data\<close> is the data the region's nodes hold,
  which \<^verbatim>\<open>EBM3_Fill_Value\<close> reads and \<^verbatim>\<open>EBM3_Update_Solution\<close> rewrites. A method that
  receives \<^verbatim>\<open>(lxx, r, add_value_flag)\<close> takes the array \<open>lxx\<close> and returns the new vector
  and flag.
\<close>

record 'd EBM3_Region =
  region_data :: 'd
  EBM3_Fill_Value :: "'d \<Rightarrow> Vec \<times> Vec \<Rightarrow> Vec \<times> Vec"
  EBM3_Update_Solution :: "'d \<Rightarrow> Vec \<Rightarrow> 'd"
  EBM3_Function :: "'d \<Rightarrow> Vec \<Rightarrow> Vec \<times> InsertMode \<Rightarrow> Vec \<times> InsertMode"
  EBM3_Time_Dependent_Function :: "'d \<Rightarrow> Vec \<Rightarrow> Vec \<times> InsertMode \<Rightarrow> Vec \<times> InsertMode"
  EBM3_Function_Hanging_Node :: "'d \<Rightarrow> Vec \<Rightarrow> Vec \<times> InsertMode \<Rightarrow> Vec \<times> InsertMode"
  EBM3_Jacobian :: "'d \<Rightarrow> Vec \<Rightarrow> Mat \<times> InsertMode \<Rightarrow> Mat \<times> InsertMode"
  EBM3_Time_Dependent_Jacobian :: "'d \<Rightarrow> Vec \<Rightarrow> Mat \<times> InsertMode \<Rightarrow> Mat \<times> InsertMode"
  EBM3_Jacobian_Hanging_Node :: "'d \<Rightarrow> Vec \<Rightarrow> Mat \<times> InsertMode \<Rightarrow> Mat \<times> InsertMode"

text \<open>
  A \<^verbatim>\<open>BoundaryCondition\<close>, with its methods for the device alone and, prefixed
  \<^verbatim>\<open>MixA_\<close>, for a spice electrode. \<open>BC_EBM3_Function\<close> and \<open>BC_EBM3_Jacobian\<close> are the
  source's \<^verbatim>\<open>bc->EBM3_Function\<close> and \<^verbatim>\<open>bc->EBM3_Jacobian\<close>.
\<close>

record BoundaryCondition =
  is_spice_electrode :: bool
  EBM3_Function_Preprocess :: "Vec \<Rightarrow> Vec \<times> RowLists \<Rightarrow> Vec \<times> RowLists"
  MixA_EBM3_Function_Preprocess :: "Vec \<Rightarrow> Vec \<times> RowLists \<Rightarrow> Vec \<times> RowLists"
  BC_EBM3_Function :: "Vec \<Rightarrow> Vec \<times> InsertMode \<Rightarrow> Vec \<times> InsertMode"
  MixA_EBM3_Function :: "Vec \<Rightarrow> Vec \<times> InsertMode \<Rightarrow> Vec \<times> InsertMode"
  EBM3_Jacobian_Reserve :: "Mat \<times> InsertMode \<Rightarrow> Mat \<times> InsertMode"
  MixA_EBM3_Jacobian_Reserve :: "Mat \<times> InsertMode \<Rightarrow> Mat \<times> InsertMode"
  EBM3_Jacobian_Preprocess :: "Vec \<Rightarrow> Mat \<times> RowLists \<Rightarrow> Mat \<times> RowLists"
  MixA_EBM3_Jacobian_Preprocess :: "Vec \<Rightarrow> Mat \<times> RowLists \<Rightarrow> Mat \<times> RowLists"
  BC_EBM3_Jacobian :: "Vec \<Rightarrow> Mat \<times> InsertMode \<Rightarrow> Mat \<times> InsertMode"
  MixA_EBM3_Jacobian :: "Vec \<Rightarrow> Mat \<times> InsertMode \<Rightarrow> Mat \<times> InsertMode"

text \<open>
  What \<^verbatim>\<open>MixA3Solver\<close> inherits from \<^verbatim>\<open>MixASolverBase\<close> and uses here, also defined
  outside the files at hand: the scatter of the global vector into the local one
  (\<^verbatim>\<open>VecScatterBegin\<close>/\<^verbatim>\<open>VecScatterEnd\<close> with \<^verbatim>\<open>INSERT_VALUES\<close>; the ghost values of the
  other processors are part of the function) and the circuit's contributions.
  \<^verbatim>\<open>spice_fill_value(x, L)\<close> reads the circuit and writes into \<open>x\<close> and \<open>L\<close>.
\<close>

record MixASolverBase =
  scatter :: "Vec \<Rightarrow> Vec \<Rightarrow> Vec"
  build_spice_function :: "Vec \<Rightarrow> Vec \<times> InsertMode \<Rightarrow> Vec \<times> InsertMode"
  build_spice_jacobian :: "Vec \<Rightarrow> Mat \<times> InsertMode \<Rightarrow> Mat \<times> InsertMode"
  spice_fill_value :: "SPICE_CKT \<Rightarrow> Vec \<times> Vec \<Rightarrow> Vec \<times> Vec"

subsection \<open>Operations of the linear backend\<close>

text \<open>\<^verbatim>\<open>VecPointwiseMult(w, x, y)\<close>: \<open>w\<^sub>i = x\<^sub>i\<cdot>y\<^sub>i\<close>.\<close>

definition VecPointwiseMult :: "Vec \<Rightarrow> Vec \<Rightarrow> Vec" where
  "VecPointwiseMult x y = map2 (*) x y"

text \<open>
  Modelled from the spec: \<^verbatim>\<open>PetscUtils::VecAddClearRow\<close>, whose definition is not among
  the files. The spec: the driver "adds each src row into the corresponding dst row", and
  "zeroes every clear row". The source rows are read before any row is written.
\<close>

definition VecAddClearRow :: "Vec \<Rightarrow> RowLists \<Rightarrow> Vec" where
  "VecAddClearRow r rows =
     (case rows of (src_row, dst_row, clear_row) \<Rightarrow>
        (let vals = map (\<lambda>i. r ! i) src_row;
             r1 = fold (\<lambda>(d, v) r'. r'[d := r' ! d + v]) (zip dst_row vals) r
         in fold (\<lambda>c r'. r'[c := 0]) clear_row r1))"

text \<open>\<^verbatim>\<open>MatZeroEntries(J)\<close>.\<close>

definition MatZeroEntries :: "Mat \<Rightarrow> Mat" where
  "MatZeroEntries M = map (map (\<lambda>_. 0)) M"

text \<open>
  Modelled from the spec: \<^verbatim>\<open>PetscUtils::MatAddRowToRow\<close>, whose definition is not among
  the files; as for the vector, each source row is added into its destination row, the
  source rows being read first.
\<close>

definition MatAddRowToRow :: "Mat \<Rightarrow> nat list \<Rightarrow> nat list \<Rightarrow> Mat" where
  "MatAddRowToRow M src_row dst_row =
     (let vals = map (\<lambda>i. M ! i) src_row
      in fold (\<lambda>(d, v) M'. M'[d := map2 (+) (M' ! d) v]) (zip dst_row vals) M)"

text \<open>\<^verbatim>\<open>MatZeroRows(J, n, rows, diag)\<close>: the rows are zeroed and get \<open>diag\<close> on the diagonal.\<close>

definition MatZeroRows :: "Mat \<Rightarrow> nat list \<Rightarrow> real \<Rightarrow> Mat" where
  "MatZeroRows M rows diag =
     fold (\<lambda>c M'. M'[c := (map (\<lambda>_. 0) (M' ! c))[c := diag]]) rows M"

text \<open>\<^verbatim>\<open>MatDiagonalScale(J, L, NULL)\<close>: \<open>J \<leftarrow> diag(L)\<cdot>J\<close>, row \<open>i\<close> is multiplied by \<open>L\<^sub>i\<close>.\<close>

definition MatDiagonalScale :: "Mat \<Rightarrow> Vec \<Rightarrow> Mat" where
  "MatDiagonalScale M l = map2 (\<lambda>li row. map (\<lambda>v. li * v) row) l M"

subsection \<open>\<^verbatim>\<open>build_petsc_sens_residual\<close>\<close>

text \<open>
  The members of the solver that the assembly routines touch. The solution \<open>x\<close> and the
  residual \<open>r\<close> are arguments of the routines.
\<close>

record MixA3Solver =
  solver_L :: Vec
  solver_lx :: Vec
  solver_J :: Mat
  jacobian_matrix_first_assemble :: bool

text \<open>The dispatch on \<^verbatim>\<open>bc->is_spice_electrode()\<close>, lines 996 to 999 and 1008 to 1011.\<close>

definition bc_Function_Preprocess ::
  "Vec \<Rightarrow> BoundaryCondition \<Rightarrow> Vec \<times> RowLists \<Rightarrow> Vec \<times> RowLists" where
  "bc_Function_Preprocess lxx bc =
     (if is_spice_electrode bc then MixA_EBM3_Function_Preprocess bc lxx
      else EBM3_Function_Preprocess bc lxx)"

definition bc_Function ::
  "Vec \<Rightarrow> BoundaryCondition \<Rightarrow> Vec \<times> InsertMode \<Rightarrow> Vec \<times> InsertMode" where
  "bc_Function lxx bc =
     (if is_spice_electrode bc then MixA_EBM3_Function bc lxx else BC_EBM3_Function bc lxx)"

text \<open>
  Lines 929 to 1031. The result is the local vector \<open>lx\<close> after the scatter and the
  residual \<open>r\<close>. \<^verbatim>\<open>VecAssemblyBegin\<close>/\<^verbatim>\<open>VecAssemblyEnd\<close> flush the pending insertions of the
  distributed vector; in the model every write is immediate.
\<close>

definition build_petsc_sens_residual ::
  "SolverSpecify \<Rightarrow> MixASolverBase \<Rightarrow> 'd EBM3_Region list \<Rightarrow> BoundaryCondition list
     \<Rightarrow> MixA3Solver \<Rightarrow> Vec \<Rightarrow> Vec \<Rightarrow> Vec \<times> Vec" where
  "build_petsc_sens_residual S base regions bcs solver x r =
     (let lxx = scatter base x (solver_lx solver);
          r0 = VecZeroEntries r;
          add_value_flag = NOT_SET_VALUES;
          rf1 = fold (\<lambda>region. EBM3_Function region (region_data region) lxx)
                  regions (r0, add_value_flag);
          rf2 = (if TimeDependent S = True
                 then fold (\<lambda>region. EBM3_Time_Dependent_Function region
                                        (region_data region) lxx) regions rf1
                 else rf1);
          rf3 = fold (\<lambda>region. EBM3_Function_Hanging_Node region (region_data region) lxx)
                  regions rf2;
          rf4 = build_spice_function base lxx rf3;
          rr5 = fold (bc_Function_Preprocess lxx) bcs (fst rf4, ([], [], []));
          r6 = VecAddClearRow (fst rr5) (snd rr5);
          rf7 = fold (bc_Function lxx) bcs (r6, NOT_SET_VALUES);
          r8 = VecPointwiseMult (fst rf7) (solver_L solver)
      in (lxx, r8))"

text \<open>
  The order of assembly in the words of the spec: "regions, time-dependent, hanging nodes,
  circuit, BC preprocess (apply row add / clear), BC assemble", between the zeroing of
  \<open>r\<close> and the row scaling. A phase acts on the residual, the insertion flag and the row
  lists collected so far.
\<close>

datatype ResidualPhase =
  ZeroResidual | RegionEquations | TimeDerivative | HangingNodes | CircuitContribution
  | BCPreprocess | ApplyRowAddClear | BCAssemble | RowScaling

definition spec_residual_order :: "SolverSpecify \<Rightarrow> ResidualPhase list" where
  "spec_residual_order S =
     [ZeroResidual, RegionEquations] @ (if TimeDependent S then [TimeDerivative] else [])
     @ [HangingNodes, CircuitContribution, BCPreprocess, ApplyRowAddClear, BCAssemble,
        RowScaling]"

fun spec_residual_phase ::
  "MixASolverBase \<Rightarrow> 'd EBM3_Region list \<Rightarrow> BoundaryCondition list \<Rightarrow> Vec \<Rightarrow> Vec
     \<Rightarrow> ResidualPhase \<Rightarrow> Vec \<times> InsertMode \<times> RowLists \<Rightarrow> Vec \<times> InsertMode \<times> RowLists" where
  "spec_residual_phase base regions bcs l lxx ZeroResidual (r, flag, rows) =
     (map (\<lambda>_. 0) r, NOT_SET_VALUES, ([], [], []))"
| "spec_residual_phase base regions bcs l lxx RegionEquations (r, flag, rows) =
     (case fold (\<lambda>region. EBM3_Function region (region_data region) lxx) regions (r, flag)
      of (r', flag') \<Rightarrow> (r', flag', rows))"
| "spec_residual_phase base regions bcs l lxx TimeDerivative (r, flag, rows) =
     (case fold (\<lambda>region. EBM3_Time_Dependent_Function region (region_data region) lxx)
             regions (r, flag)
      of (r', flag') \<Rightarrow> (r', flag', rows))"
| "spec_residual_phase base regions bcs l lxx HangingNodes (r, flag, rows) =
     (case fold (\<lambda>region. EBM3_Function_Hanging_Node region (region_data region) lxx)
             regions (r, flag)
      of (r', flag') \<Rightarrow> (r', flag', rows))"
| "spec_residual_phase base regions bcs l lxx CircuitContribution (r, flag, rows) =
     (case build_spice_function base lxx (r, flag) of (r', flag') \<Rightarrow> (r', flag', rows))"
| "spec_residual_phase base regions bcs l lxx BCPreprocess (r, flag, rows) =
     (case fold (\<lambda>bc. if is_spice_electrode bc then MixA_EBM3_Function_Preprocess bc lxx
                       else EBM3_Function_Preprocess bc lxx) bcs (r, rows)
      of (r', rows') \<Rightarrow> (r', flag, rows'))"
| "spec_residual_phase base regions bcs l lxx ApplyRowAddClear (r, flag, rows) =
     (VecAddClearRow r rows, NOT_SET_VALUES, rows)"
| "spec_residual_phase base regions bcs l lxx BCAssemble (r, flag, rows) =
     (case fold (\<lambda>bc. if is_spice_electrode bc then MixA_EBM3_Function bc lxx
                       else BC_EBM3_Function bc lxx) bcs (r, flag)
      of (r', flag') \<Rightarrow> (r', flag', rows))"
| "spec_residual_phase base regions bcs l lxx RowScaling (r, flag, rows) =
     (map2 (*) r l, flag, rows)"

subsection \<open>\<^verbatim>\<open>build_petsc_sens_jacobian\<close>\<close>

definition bc_Jacobian_Reserve ::
  "BoundaryCondition \<Rightarrow> Mat \<times> InsertMode \<Rightarrow> Mat \<times> InsertMode" where
  "bc_Jacobian_Reserve bc =
     (if is_spice_electrode bc then MixA_EBM3_Jacobian_Reserve bc
      else EBM3_Jacobian_Reserve bc)"

definition bc_Jacobian_Preprocess ::
  "Vec \<Rightarrow> BoundaryCondition \<Rightarrow> Mat \<times> RowLists \<Rightarrow> Mat \<times> RowLists" where
  "bc_Jacobian_Preprocess lxx bc =
     (if is_spice_electrode bc then MixA_EBM3_Jacobian_Preprocess bc lxx
      else EBM3_Jacobian_Preprocess bc lxx)"

definition bc_Jacobian ::
  "Vec \<Rightarrow> BoundaryCondition \<Rightarrow> Mat \<times> InsertMode \<Rightarrow> Mat \<times> InsertMode" where
  "bc_Jacobian lxx bc =
     (if is_spice_electrode bc then MixA_EBM3_Jacobian bc lxx else BC_EBM3_Jacobian bc lxx)"

text \<open>
  Lines 1044 to 1151: the matrix as it stands after the second \<^verbatim>\<open>MatAssemblyEnd\<close>, before
  the scaling. \<^verbatim>\<open>MatSetOption(J, MAT_IGNORE_ZERO_ENTRIES, PETSC_TRUE)\<close> changes no entry.
\<close>

definition assemble_jacobian ::
  "SolverSpecify \<Rightarrow> MixASolverBase \<Rightarrow> 'd EBM3_Region list \<Rightarrow> BoundaryCondition list
     \<Rightarrow> MixA3Solver \<Rightarrow> Vec \<Rightarrow> Mat" where
  "assemble_jacobian S base regions bcs solver lxx =
     (let J0 = MatZeroEntries (solver_J solver);
          add_value_flag = NOT_SET_VALUES;
          Jf1 = fold (\<lambda>region. EBM3_Jacobian region (region_data region) lxx)
                  regions (J0, add_value_flag);
          Jf2 = (if TimeDependent S = True
                 then fold (\<lambda>region. EBM3_Time_Dependent_Jacobian region
                                        (region_data region) lxx) regions Jf1
                 else Jf1);
          Jf3 = fold (\<lambda>region. EBM3_Jacobian_Hanging_Node region (region_data region) lxx)
                  regions Jf2;
          Jf4 = build_spice_jacobian base lxx Jf3;
          Jf5 = (if \<not> jacobian_matrix_first_assemble solver
                 then fold bc_Jacobian_Reserve bcs Jf4
                 else Jf4);
          Jr6 = fold (bc_Jacobian_Preprocess lxx) bcs (fst Jf5, ([], [], []));
          J7 = (case snd Jr6 of (src_row, dst_row, clear_row) \<Rightarrow>
                  MatZeroRows (MatAddRowToRow (fst Jr6) src_row dst_row) clear_row 0);
          Jf8 = fold (bc_Jacobian lxx) bcs (J7, NOT_SET_VALUES)
      in fst Jf8)"

text \<open>
  Lines 1038 to 1171. After the assembly the matrix is scaled by \<open>L\<close>
  (\<^verbatim>\<open>MatDiagonalScale(J, L, PETSC_NULL)\<close>); the two statements that would refresh \<open>L\<close>,
  \<^verbatim>\<open>MatGetDiagonal(J, L)\<close> and \<^verbatim>\<open>VecReciprocal(L)\<close>, are commented out in the source, so
  \<open>L\<close> is not assigned.
\<close>

definition build_petsc_sens_jacobian ::
  "SolverSpecify \<Rightarrow> MixASolverBase \<Rightarrow> 'd EBM3_Region list \<Rightarrow> BoundaryCondition list
     \<Rightarrow> MixA3Solver \<Rightarrow> Vec \<Rightarrow> MixA3Solver" where
  "build_petsc_sens_jacobian S base regions bcs solver x =
     (let lxx = scatter base x (solver_lx solver);
          J9 = assemble_jacobian S base regions bcs solver lxx;
          J10 = MatDiagonalScale J9 (solver_L solver)
      in solver\<lparr>solver_lx := lxx, solver_J := J10,
                jacobian_matrix_first_assemble := True\<rparr>)"

subsection \<open>\<^verbatim>\<open>post_solve_process\<close> and \<^verbatim>\<open>diverged_recovery\<close>\<close>

text \<open>
  What the two routines read and write: the members \<open>x\<close>, \<open>L\<close> and \<open>lx\<close> of the solver, the
  regions of \<^verbatim>\<open>_system\<close> and the circuit \<^verbatim>\<open>_circuit\<close>.
\<close>

record 'd SolverState =
  state_x :: Vec
  state_L :: Vec
  state_lx :: Vec
  state_regions :: "'d EBM3_Region list"
  state_circuit :: SPICE_CKT

text \<open>
  Lines 128 to 143: \<open>x\<close> is scattered into \<open>lx\<close>, every region takes its solution from
  the array of \<open>lx\<close>, and the circuit saves its solution.
\<close>

definition post_solve_update :: "MixASolverBase \<Rightarrow> 'd SolverState \<Rightarrow> 'd SolverState" where
  "post_solve_update base s =
     (let lxx = scatter base (state_x s) (state_lx s)
      in s\<lparr>state_lx := lxx,
           state_regions :=
             map (\<lambda>region. region\<lparr>region_data :=
                              EBM3_Update_Solution region (region_data region) lxx\<rparr>)
               (state_regions s),
           state_circuit := save_solution (state_circuit s)\<rparr>)"

text \<open>
  The function, lines 125 to 146; it ends in \<^verbatim>\<open>MixASolverBase::post_solve_process()\<close>,
  which is defined outside the files at hand and is a parameter here.
\<close>

definition post_solve_process ::
  "MixASolverBase \<Rightarrow> ('d SolverState \<Rightarrow> 'd SolverState) \<Rightarrow> 'd SolverState \<Rightarrow> 'd SolverState" where
  "post_solve_process base base_post_solve_process s =
     base_post_solve_process (post_solve_update base s)"

text \<open>
  Lines 175 to 197. \<^verbatim>\<open>VecAssemblyBegin\<close>/\<^verbatim>\<open>VecAssemblyEnd\<close> flush the pending insertions;
  in the model every write is immediate.
\<close>

definition diverged_recovery :: "MixASolverBase \<Rightarrow> bool \<Rightarrow> 'd SolverState \<Rightarrow> 'd SolverState" where
  "diverged_recovery base is_last_processor s =
     (let xL1 = fold (\<lambda>region. EBM3_Fill_Value region (region_data region))
                  (state_regions s) (state_x s, state_L s);
          circuit' = (if is_last_processor then restore_solution (state_circuit s)
                      else state_circuit s);
          xL2 = spice_fill_value base circuit' xL1
      in s\<lparr>state_x := fst xL2, state_L := snd xL2, state_circuit := circuit'\<rparr>)"

subsection \<open>Small concrete systems\<close>

text \<open>
  Concrete objects on which the functions above are evaluated. \<open>idle_base\<close> copies \<open>x\<close>
  into \<open>lx\<close> and has no circuit contribution; \<open>diag2_region\<close> adds 2 to the entry
  \<open>(0, 0)\<close> of the Jacobian and 1 to row 0 of the residual.
\<close>

definition steady_spec :: SolverSpecify where
  "steady_spec = \<lparr>dt = 1, dt_last = 1, dt_last_last = 1, TS_rtol = 1, TS_atol = 1,
                   TS_type = BDF1, BDF2_LowerOrder = False, TimeDependent = False\<rparr>"

definition idle_base :: MixASolverBase where
  "idle_base = \<lparr>scatter = (\<lambda>x lx. x), build_spice_function = (\<lambda>lxx rf. rf),
                 build_spice_jacobian = (\<lambda>lxx Jf. Jf),
                 spice_fill_value = (\<lambda>ckt xl. xl)\<rparr>"

definition diag2_region :: "unit EBM3_Region" where
  "diag2_region =
     \<lparr>region_data = (),
      EBM3_Fill_Value = (\<lambda>d xl. xl),
      EBM3_Update_Solution = (\<lambda>d lxx. d),
      EBM3_Function = (\<lambda>d lxx (r, f). (r[0 := r ! 0 + 1], ADD_VALUES)),
      EBM3_Time_Dependent_Function = (\<lambda>d lxx rf. rf),
      EBM3_Function_Hanging_Node = (\<lambda>d lxx rf. rf),
      EBM3_Jacobian = (\<lambda>d lxx (M, f). (M[0 := (M ! 0)[0 := M ! 0 ! 0 + 2]], ADD_VALUES)),
      EBM3_Time_Dependent_Jacobian = (\<lambda>d lxx Jf. Jf),
      EBM3_Jacobian_Hanging_Node = (\<lambda>d lxx Jf. Jf)\<rparr>"

definition scaled3_solver :: MixA3Solver where
  "scaled3_solver = \<lparr>solver_L = [3], solver_lx = [0], solver_J = [[0]],
                      jacobian_matrix_first_assemble = False\<rparr>"

text \<open>
  Units that are all 1; the usual order of the variables at a node; a semiconductor
  region with one node at offset 0 that keeps \<open>\<psi>\<close>, \<open>n\<close> and \<open>p\<close> in rows 0, 1 and 2; a
  circuit of a voltage node in row 3 and a current node in row 4.
\<close>

definition plain_units :: PhysicalUnit where
  "plain_units = \<lparr>unit_kb = 1, unit_e = 1, unit_cm = 1, unit_K = 1\<rparr>"

definition standard_offset :: "SolutionVariable \<Rightarrow> nat" where
  "standard_offset v =
     (case v of POTENTIAL \<Rightarrow> 0 | ELECTRON \<Rightarrow> 1 | HOLE \<Rightarrow> 2 | TEMPERATURE \<Rightarrow> 3
      | E_TEMP \<Rightarrow> 4 | H_TEMP \<Rightarrow> 5)"

definition steady_data :: FVM_NodeData where
  "steady_data = \<lparr>data_n = 1, data_n_last = 1, data_p = 1, data_p_last = 1,
                   data_T = 1, data_T_last = 1, data_Tn = 1, data_Tn_last = 1,
                   data_Tp = 1, data_Tp_last = 1\<rparr>"

definition diode_region :: SimulationRegion where
  "diode_region =
     \<lparr>region_type = SemiconductorRegion, ebm_variable_offset = standard_offset,
      ebm_n_variables = 3,
      get_advanced_model = \<lparr>enable_Tl = False, enable_Tn = False, enable_Tp = False\<rparr>,
      on_processor_nodes = [\<lparr>local_offset = 0, node_data = steady_data\<rparr>]\<rparr>"

definition two_node_ckt :: SPICE_CKT where
  "two_node_ckt =
     \<lparr>n_ckt_nodes = 2, is_voltage_node = (\<lambda>n. n = 0), is_current_node = (\<lambda>n. n = 1),
      array_offset_x = (\<lambda>n. 3 + n), array_offset_f = (\<lambda>n. 3 + n),
      ckt_solution = [0, 0], ckt_saved_solution = [0, 0]\<rparr>"

text \<open>A transient configuration with \<open>\<epsilon>\<^sub>r = 1\<close> and \<open>\<epsilon>\<^sub>a = 2\<close>.\<close>

definition lte_spec :: SolverSpecify where
  "lte_spec = \<lparr>dt = 1, dt_last = 1, dt_last_last = 1, TS_rtol = 1, TS_atol = 2,
                TS_type = BDF1, BDF2_LowerOrder = False, TimeDependent = True\<rparr>"


section \<open>Theorems\<close>

subsection \<open>Vector helpers\<close>





subsection \<open>The predictors\<close>






subsection \<open>The BDF2 positivity test\<close>

text \<open>
  C1. The claim asks that \<^verbatim>\<open>BDF2_positive_defined\<close> return true exactly when
  \<open>a\<cdot>\<xi>_new \<ge> b\<cdot>\<xi>_last\<close> holds at every semiconductor node, and that it accept an
  unchanged positive history with \<open>dt = dt_last\<close>. The code returns
  \<^verbatim>\<open>failure_count != 0\<close>: on one semiconductor node with \<open>n = n_last = 1\<close>,
  \<open>p = p_last = 1\<close>, no temperature enabled and \<open>dt = dt_last = 1\<close> the constants are
  \<open>r = 1/2\<close>, \<open>a = 4\<close>, \<open>b = 1\<close>, both inequalities hold, no failure is counted, and the
  function returns false. On the same node with \<open>n = 1/16 < n_last/8\<close> one failure is
  counted and the function returns true.
\<close>

theorem BDF2_positive_defined_returns_failure_flag:
  "BDF2_r \<lparr>dt = 1, dt_last = 1, dt_last_last = 1, TS_rtol = 1, TS_atol = 1,
           TS_type = BDF2, BDF2_LowerOrder = False, TimeDependent = True\<rparr> = 1 / 2
   \<and> BDF2_a \<lparr>dt = 1, dt_last = 1, dt_last_last = 1, TS_rtol = 1, TS_atol = 1,
           TS_type = BDF2, BDF2_LowerOrder = False, TimeDependent = True\<rparr> = 4
   \<and> BDF2_b \<lparr>dt = 1, dt_last = 1, dt_last_last = 1, TS_rtol = 1, TS_atol = 1,
           TS_type = BDF2, BDF2_LowerOrder = False, TimeDependent = True\<rparr> = 1
   \<and> BDF2_positive_defined
        \<lparr>dt = 1, dt_last = 1, dt_last_last = 1, TS_rtol = 1, TS_atol = 1,
         TS_type = BDF2, BDF2_LowerOrder = False, TimeDependent = True\<rparr>
        [\<lparr>region_type = SemiconductorRegion,
          ebm_variable_offset = (\<lambda>v. case v of POTENTIAL \<Rightarrow> 0 | ELECTRON \<Rightarrow> 1 | HOLE \<Rightarrow> 2
                                       | TEMPERATURE \<Rightarrow> 3 | E_TEMP \<Rightarrow> 4 | H_TEMP \<Rightarrow> 5),
          ebm_n_variables = 3,
          get_advanced_model = \<lparr>enable_Tl = False, enable_Tn = False, enable_Tp = False\<rparr>,
          on_processor_nodes =
            [\<lparr>local_offset = 0,
              node_data = \<lparr>data_n = 1, data_n_last = 1, data_p = 1, data_p_last = 1,
                           data_T = 1, data_T_last = 1, data_Tn = 1, data_Tn_last = 1,
                           data_Tp = 1, data_Tp_last = 1\<rparr>\<rparr>]\<rparr>]
        [] = False
   \<and> BDF2_positive_defined
        \<lparr>dt = 1, dt_last = 1, dt_last_last = 1, TS_rtol = 1, TS_atol = 1,
         TS_type = BDF2, BDF2_LowerOrder = False, TimeDependent = True\<rparr>
        [\<lparr>region_type = SemiconductorRegion,
          ebm_variable_offset = (\<lambda>v. case v of POTENTIAL \<Rightarrow> 0 | ELECTRON \<Rightarrow> 1 | HOLE \<Rightarrow> 2
                                       | TEMPERATURE \<Rightarrow> 3 | E_TEMP \<Rightarrow> 4 | H_TEMP \<Rightarrow> 5),
          ebm_n_variables = 3,
          get_advanced_model = \<lparr>enable_Tl = False, enable_Tn = False, enable_Tp = False\<rparr>,
          on_processor_nodes =
            [\<lparr>local_offset = 0,
              node_data = \<lparr>data_n = 1 / 16, data_n_last = 1, data_p = 1, data_p_last = 1,
                           data_T = 1, data_T_last = 1, data_Tn = 1, data_Tn_last = 1,
                           data_Tp = 1, data_Tp_last = 1\<rparr>\<rparr>]\<rparr>]
        [] = True"
  by (simp add: BDF2_positive_defined_def BDF2_region_failures_def BDF2_node_failures_def
      BDF2_r_def BDF2_a_def BDF2_b_def Parallel_sum_def)

subsection \<open>Assembly of the residual and of the Jacobian\<close>

text \<open>
  C10. \<^verbatim>\<open>build_petsc_sens_residual\<close> assembles \<open>r\<close> in the order of the spec: \<open>r\<close> is zeroed,
  then come the regions' governing equations, the time derivative (only when
  \<open>TimeDependent\<close> holds), the hanging nodes, the circuit, the preprocess of the boundary
  conditions, whose row lists are applied by adding each source row into its destination
  row and zeroing every clear row, and the boundary conditions themselves; at the end \<open>r\<close>
  is multiplied pointwise by \<open>L\<close>. The residual the function returns is the one obtained
  by running the phases of \<open>spec_residual_order\<close> one after the other.
\<close>

theorem build_petsc_sens_residual_order:
  "snd (build_petsc_sens_residual S base regions bcs solver x r)
     = fst (fold (spec_residual_phase base regions bcs (solver_L solver)
                    (scatter base x (solver_lx solver)))
              (spec_residual_order S) (r, NOT_SET_VALUES, ([], [], [])))"
proof -
  let ?lxx = "scatter base x (solver_lx solver)"
  have pre: "bc_Function_Preprocess ?lxx
               = (\<lambda>bc. if is_spice_electrode bc then MixA_EBM3_Function_Preprocess bc ?lxx
                        else EBM3_Function_Preprocess bc ?lxx)"
    by (rule ext) (simp add: bc_Function_Preprocess_def)
  have asm: "bc_Function ?lxx
               = (\<lambda>bc. if is_spice_electrode bc then MixA_EBM3_Function bc ?lxx
                        else BC_EBM3_Function bc ?lxx)"
    by (rule ext) (simp add: bc_Function_def)
  show ?thesis
  proof (cases "TimeDependent S")
    case True
    then show ?thesis
      by (simp add: build_petsc_sens_residual_def spec_residual_order_def Let_def
          VecZeroEntries_def VecPointwiseMult_def pre asm split: prod.splits)
  next
    case False
    then show ?thesis
      by (simp add: build_petsc_sens_residual_def spec_residual_order_def Let_def
          VecZeroEntries_def VecPointwiseMult_def pre asm split: prod.splits)
  qed
qed

text \<open>
  C3 as stated fails. With \<open>L = [3]\<close> and a region that assembles the 1 by 1 Jacobian
  \<open>[[2]]\<close>, the call leaves \<open>L = [3]\<close> and \<open>J = [[6]]\<close>: \<open>L\<close> is the reciprocal neither of
  the assembled diagonal 2 nor of the scaled diagonal 6.
\<close>

theorem build_petsc_sens_jacobian_L_counterexample:
  "assemble_jacobian steady_spec idle_base [diag2_region] [] scaled3_solver [0] = [[2]]
   \<and> solver_J (build_petsc_sens_jacobian steady_spec idle_base [diag2_region] []
                 scaled3_solver [0]) = [[6]]
   \<and> solver_L (build_petsc_sens_jacobian steady_spec idle_base [diag2_region] []
                 scaled3_solver [0]) ! 0 \<noteq> 1 / 2
   \<and> solver_L (build_petsc_sens_jacobian steady_spec idle_base [diag2_region] []
                 scaled3_solver [0]) ! 0 \<noteq> 1 / 6"
  by (simp add: build_petsc_sens_jacobian_def assemble_jacobian_def steady_spec_def
      idle_base_def diag2_region_def scaled3_solver_def MatZeroEntries_def
      MatAddRowToRow_def MatZeroRows_def MatDiagonalScale_def)

text \<open>
  C3, amended. \<^verbatim>\<open>build_petsc_sens_jacobian\<close> does not write \<open>L\<close>: after every Jacobian
  assembly \<open>L\<close> is the vector it was before the call, and \<open>J\<close> is the assembled matrix
  with row \<open>i\<close> multiplied by \<open>L\<^sub>i\<close>.
\<close>

theorem build_petsc_sens_jacobian_keeps_L:
  "solver_L (build_petsc_sens_jacobian S base regions bcs solver x) = solver_L solver
   \<and> solver_J (build_petsc_sens_jacobian S base regions bcs solver x)
       = MatDiagonalScale
           (assemble_jacobian S base regions bcs solver (scatter base x (solver_lx solver)))
           (solver_L solver)"
  by (simp add: build_petsc_sens_jacobian_def Let_def)

subsection \<open>Loops of local steps\<close>

lemma nth_list_update_if:
  "xs[i := a] ! j = (if j = i \<and> i < length xs then a else xs ! j)"
  by (cases "i < length xs") (auto simp: nth_list_update list_update_beyond)

lemma fold_steps_length:
  assumes "\<And>k v. length (step k v) = length v"
  shows "length (fold step ks v) = length v"
  using assms by (induction ks arbitrary: v) simp_all

lemma fold_steps_frame:
  assumes "\<And>k v. k \<in> set ks \<Longrightarrow> j \<notin> set (rows k) \<Longrightarrow> step k v ! j = v ! j"
    and "\<forall>k \<in> set ks. j \<notin> set (rows k)"
  shows "fold step ks v ! j = v ! j"
  using assms by (induction ks arbitrary: v) simp_all

lemma row_local_frame: "row_local R f \<Longrightarrow> i \<notin> R \<Longrightarrow> f v ! i = v ! i"
  by (simp add: row_local_def)

lemma row_local_length: "row_local R f \<Longrightarrow> length (f v) = length v"
  by (simp add: row_local_def)

lemma row_local_id: "row_local R (\<lambda>v. v)"
  by (simp add: row_local_def)

lemma row_local_comp:
  assumes f: "row_local R f" and g: "row_local R g"
  shows "row_local R (\<lambda>v. g (f v))"
  unfolding row_local_def
proof (intro conjI allI impI ballI)
  fix v :: "'a list"
  show "length (g (f v)) = length v"
    using f g by (simp add: row_local_def)
next
  fix v :: "'a list" and i
  assume "i \<notin> R"
  then show "g (f v) ! i = v ! i"
    using f g by (simp add: row_local_def)
next
  fix v v' :: "'a list" and i
  assume l: "length v = length v'" and ag: "\<forall>i \<in> R. v ! i = v' ! i" and i: "i \<in> R"
  have l': "length (f v) = length (f v')"
    using f l by (simp add: row_local_def)
  have ag': "\<forall>i \<in> R. f v ! i = f v' ! i"
    using f l ag unfolding row_local_def by blast
  show "g (f v) ! i = g (f v') ! i"
    using g l' ag' i unfolding row_local_def by blast
qed

lemma row_local_if:
  assumes "b \<Longrightarrow> row_local R f" and "\<not> b \<Longrightarrow> row_local R g"
  shows "row_local R (\<lambda>v. if b then f v else g v)"
  using assms by (cases b) simp_all

lemma row_local_update:
  assumes i: "i \<in> R"
    and a: "\<And>v v'. length v = length v' \<Longrightarrow> (\<forall>i \<in> R. v ! i = v' ! i) \<Longrightarrow> a v = a v'"
    and c: "\<And>v v'. length v = length v' \<Longrightarrow> (\<forall>i \<in> R. v ! i = v' ! i) \<Longrightarrow> c v = c v'"
  shows "row_local R (\<lambda>v. if c v then v[i := a v] else v)"
  unfolding row_local_def
proof (intro conjI allI impI ballI)
  fix v :: "'a list"
  show "length (if c v then v[i := a v] else v) = length v" by simp
next
  fix v :: "'a list" and j
  assume "j \<notin> R"
  then have "j \<noteq> i" using i by auto
  then show "(if c v then v[i := a v] else v) ! j = v ! j" by simp
next
  fix v v' :: "'a list" and j
  assume l: "length v = length v'" and ag: "\<forall>i \<in> R. v ! i = v' ! i" and j: "j \<in> R"
  have "a v = a v'" "c v = c v'" using a c l ag by blast+
  then show "(if c v then v[i := a v] else v) ! j = (if c v' then v'[i := a v'] else v') ! j"
    using l ag j by (simp add: nth_list_update_if)
qed

lemma row_local_update_always:
  assumes i: "i \<in> R"
    and a: "\<And>v v'. length v = length v' \<Longrightarrow> (\<forall>i \<in> R. v ! i = v' ! i) \<Longrightarrow> a v = a v'"
  shows "row_local R (\<lambda>v. v[i := a v])"
proof -
  have "row_local R (\<lambda>v. if (\<lambda>_. True) v then v[i := a v] else v)"
  proof (rule row_local_update)
    show "i \<in> R" by fact
    show "a v = a v'" if "length v = length v'" "\<forall>i \<in> R. v ! i = v' ! i" for v v'
      using that by (rule a)
  qed simp
  then show ?thesis by simp
qed

lemma fold_steps_local:
  fixes step :: "'k \<Rightarrow> 'a list \<Rightarrow> 'a list"
  assumes loc: "\<And>k. k \<in> set ks \<Longrightarrow> row_local (set (rows k)) (step k)"
    and dist: "distinct (concat (map rows ks))"
    and k: "k \<in> set ks" and j: "j \<in> set (rows k)"
  shows "fold step ks v ! j = step k v ! j"
  using loc dist k
proof (induction ks arbitrary: v)
  case Nil
  then show ?case by simp
next
  case (Cons k0 ks)
  have d: "distinct (concat (map rows ks))"
    and disj: "set (rows k0) \<inter> (\<Union>k' \<in> set ks. set (rows k')) = {}"
    using Cons.prems(2) by auto
  have loc0: "row_local (set (rows k0)) (step k0)"
    and locs: "\<And>k'. k' \<in> set ks \<Longrightarrow> row_local (set (rows k')) (step k')"
    using Cons.prems(1) by simp_all
  show ?case
  proof (cases "j \<in> set (rows k0)")
    case True
    then have notin: "\<forall>k' \<in> set ks. j \<notin> set (rows k')"
      using disj by auto
    then have "k \<notin> set ks" using j by auto
    then have kk: "k = k0" using Cons.prems(3) by simp
    have "fold step ks (step k0 v) ! j = step k0 v ! j"
    proof (rule fold_steps_frame [where rows = rows])
      show "\<forall>k' \<in> set ks. j \<notin> set (rows k')" by (rule notin)
      show "step k' v' ! j = v' ! j" if "k' \<in> set ks" "j \<notin> set (rows k')" for k' v'
        using locs [OF that(1)] that(2) by (rule row_local_frame)
    qed
    then show ?thesis using kk by simp
  next
    case False
    then have kin: "k \<in> set ks" using Cons.prems(3) j by auto
    have "fold step ks (step k0 v) ! j = step k (step k0 v) ! j"
      using Cons.IH [OF locs d kin] by simp
    also have "\<dots> = step k v ! j"
    proof -
      have "length (step k0 v) = length v"
        using loc0 by (rule row_local_length)
      moreover have "\<forall>i' \<in> set (rows k). step k0 v ! i' = v ! i'"
      proof
        fix i' assume "i' \<in> set (rows k)"
        then have "i' \<notin> set (rows k0)" using disj kin by auto
        then show "step k0 v ! i' = v ! i'" using loc0 by (simp add: row_local_def)
      qed
      ultimately show ?thesis
        using locs [OF kin] j unfolding row_local_def by blast
    qed
    finally show ?thesis by simp
  qed
qed

lemma fold_region_nodes:
  "fold (\<lambda>region st. if P region then st else fold (g region) (on_processor_nodes region) st)
     regions st
   = fold (\<lambda>rn st. if P (fst rn) then st else g (fst rn) (snd rn) st) (region_nodes regions) st"
proof (induction regions arbitrary: st)
  case Nil
  then show ?case by (simp add: region_nodes_def)
next
  case (Cons r rs)
  have skip: "fold (\<lambda>x st. st) xs st = st" for xs :: "FVM_Node list" and st :: 'a
    by (induction xs) simp_all
  have "region_nodes (r # rs) = map (Pair r) (on_processor_nodes r) @ region_nodes rs"
    by (simp add: region_nodes_def)
  then show ?case using Cons.IH
    by (simp add: fold_map comp_def skip)
qed

lemma fold_all_region_nodes:
  "fold (\<lambda>region. fold (g region) (on_processor_nodes region)) regions st
   = fold (\<lambda>rn. g (fst rn) (snd rn)) (region_nodes regions) st"
proof (induction regions arbitrary: st)
  case Nil
  then show ?case by (simp add: region_nodes_def)
next
  case (Cons r rs)
  have "region_nodes (r # rs) = map (Pair r) (on_processor_nodes r) @ region_nodes rs"
    by (simp add: region_nodes_def)
  then show ?case using Cons.IH
    by (simp add: fold_map comp_def)
qed

lemma Max_insert_max:
  fixes a :: "'a::linorder"
  shows "finite S \<Longrightarrow> Max (insert (max a b) S) = Max (insert a (insert b S))"
  by (cases "S = {}") (simp_all add: max.assoc)

lemma distinct_concat_member:
  "distinct (concat xss) \<Longrightarrow> xs \<in> set xss \<Longrightarrow> distinct xs"
  by (induction xss) auto

subsection \<open>The layout\<close>

lemma variable_row_in_node_rows:
  "v \<in> set (region_variables (fst rn)) \<Longrightarrow> variable_row rn v \<in> set (node_rows rn)"
  by (simp add: node_rows_def)

lemma variable_rows_distinct:
  assumes "distinct (node_rows rn)"
    and "v \<in> set (region_variables (fst rn))" and "v' \<in> set (region_variables (fst rn))"
    and "v \<noteq> v'"
  shows "variable_row rn v \<noteq> variable_row rn v'"
proof -
  have "inj_on (variable_row rn) (set (region_variables (fst rn)))"
    using assms(1) by (simp add: node_rows_def distinct_map)
  then show ?thesis
    using assms(2-4) by (meson inj_onD)
qed

lemma POTENTIAL_in_region_variables: "POTENTIAL \<in> set (region_variables region)"
  by (simp add: region_variables_def)

lemma POTENTIAL_row_in_node_rows: "variable_row rn POTENTIAL \<in> set (node_rows rn)"
  by (rule variable_row_in_node_rows) (rule POTENTIAL_in_region_variables)

lemma semiconductor_region_variables:
  assumes "region_type region = SemiconductorRegion"
  shows "ELECTRON \<in> set (region_variables region)"
    and "HOLE \<in> set (region_variables region)"
    and "enable_Tl (get_advanced_model region) \<Longrightarrow> TEMPERATURE \<in> set (region_variables region)"
    and "enable_Tn (get_advanced_model region) \<Longrightarrow> E_TEMP \<in> set (region_variables region)"
    and "enable_Tp (get_advanced_model region) \<Longrightarrow> H_TEMP \<in> set (region_variables region)"
  using assms by (simp_all add: region_variables_def)

lemma node_rows_distinct:
  assumes "distinct (device_rows regions)" and "rn \<in> set (region_nodes regions)"
  shows "distinct (node_rows rn)"
proof (rule distinct_concat_member)
  show "distinct (concat (map node_rows (region_nodes regions)))"
    using assms(1) by (simp add: device_rows_def)
  show "node_rows rn \<in> set (map node_rows (region_nodes regions))"
    using assms(2) by simp
qed

lemma node_rows_subset:
  assumes "rn \<in> set (region_nodes regions)"
  shows "set (node_rows rn) \<subseteq> set (device_rows regions)"
  using assms by (auto simp: device_rows_def)

lemma layout_ok_device_distinct: "layout_ok regions ckt len \<Longrightarrow> distinct (device_rows regions)"
  by (simp add: layout_ok_def)



lemma layout_ok_device_apart:
  "layout_ok regions ckt len \<Longrightarrow> j \<in> set (device_rows regions) \<Longrightarrow> j \<notin> set (circuit_rows_x ckt)"
  by (auto simp: layout_ok_def)

lemma layout_ok_device_range:
  "layout_ok regions ckt len \<Longrightarrow> j \<in> set (device_rows regions) \<Longrightarrow> j < len"
  by (auto simp: layout_ok_def list_all_iff)



subsection \<open>The clips\<close>

lemma length_limit_carrier_density [simp]:
  "length (limit_carrier_density U i ww) = length ww"
  by (simp add: limit_carrier_density_def)

lemma length_limit_lattice_temperature [simp]:
  "length (limit_lattice_temperature U T i ww) = length ww"
  by (simp add: limit_lattice_temperature_def)

lemma length_limit_carrier_temperature [simp]:
  "length (limit_carrier_temperature T xx ic iT ww) = length ww"
  by (simp add: limit_carrier_temperature_def Let_def)

lemma length_limit_temperatures [simp]:
  "length (limit_temperatures U T xx region offset ww) = length ww"
  by (simp add: limit_temperatures_def Let_def)

lemma nth_limit_carrier_density:
  "limit_carrier_density U i ww ! j
     = (if j = i \<and> i < length ww then max (ww ! i) (onePerCMC U) else ww ! j)"
  by (simp add: limit_carrier_density_def max_def nth_list_update_if)

lemma nth_limit_lattice_temperature:
  "limit_lattice_temperature U T i ww ! j
     = (if j = i \<and> i < length ww then max (ww ! i) (T - 50 * unit_K U) else ww ! j)"
  by (simp add: limit_lattice_temperature_def max_def nth_list_update_if)

lemma nth_limit_carrier_temperature:
  "limit_carrier_temperature T xx ic iT ww ! j
     = (if j = iT \<and> iT < length ww
        then carrier_T1 T (xx ! ic) (ww ! ic) (xx ! iT) (ww ! iT) * ww ! ic
        else ww ! j)"
  by (simp add: limit_carrier_temperature_def Let_def nth_list_update_if)

lemma row_local_limit_carrier_density:
  assumes "i \<in> R"
  shows "row_local R (limit_carrier_density U i)"
proof -
  have eq: "limit_carrier_density U i
              = (\<lambda>ww. if ww ! i < onePerCMC U then ww[i := onePerCMC U] else ww)"
    by (rule ext) (simp add: limit_carrier_density_def)
  show ?thesis
    unfolding eq by (rule row_local_update) (use assms in auto)
qed

lemma row_local_limit_lattice_temperature:
  assumes "i \<in> R"
  shows "row_local R (limit_lattice_temperature U T i)"
proof -
  have eq: "limit_lattice_temperature U T i
              = (\<lambda>ww. if ww ! i < T - 50 * unit_K U then ww[i := T - 50 * unit_K U] else ww)"
    by (rule ext) (simp add: limit_lattice_temperature_def)
  show ?thesis
    unfolding eq by (rule row_local_update) (use assms in auto)
qed

lemma row_local_limit_carrier_temperature:
  assumes "ic \<in> R" and "iT \<in> R"
  shows "row_local R (limit_carrier_temperature T xx ic iT)"
proof -
  have eq: "limit_carrier_temperature T xx ic iT
              = (\<lambda>ww. ww[iT := carrier_T1 T (xx ! ic) (ww ! ic) (xx ! iT) (ww ! iT) * ww ! ic])"
    by (rule ext) (simp add: limit_carrier_temperature_def Let_def)
  show ?thesis
    unfolding eq by (rule row_local_update_always) (use assms in auto)
qed

lemma row_local_limit_temperatures:
  assumes Tl: "enable_Tl (get_advanced_model (fst rn)) \<Longrightarrow> variable_row rn TEMPERATURE \<in> R"
    and Tn: "enable_Tn (get_advanced_model (fst rn))
               \<Longrightarrow> variable_row rn ELECTRON \<in> R \<and> variable_row rn E_TEMP \<in> R"
    and Tp: "enable_Tp (get_advanced_model (fst rn))
               \<Longrightarrow> variable_row rn HOLE \<in> R \<and> variable_row rn H_TEMP \<in> R"
  shows "row_local R (limit_temperatures U T xx (fst rn) (local_offset (snd rn)))"
proof -
  let ?am = "get_advanced_model (fst rn)"
  let ?f3 = "\<lambda>ww. if enable_Tl ?am
                  then limit_lattice_temperature U T (variable_row rn TEMPERATURE) ww
                  else ww"
  let ?f4 = "\<lambda>ww. if enable_Tn ?am
                  then limit_carrier_temperature T xx (variable_row rn ELECTRON)
                         (variable_row rn E_TEMP) ww
                  else ww"
  let ?f5 = "\<lambda>ww. if enable_Tp ?am
                  then limit_carrier_temperature T xx (variable_row rn HOLE)
                         (variable_row rn H_TEMP) ww
                  else ww"
  have eq: "limit_temperatures U T xx (fst rn) (local_offset (snd rn))
              = (\<lambda>ww. ?f5 (?f4 (?f3 ww)))"
    by (rule ext) (simp add: limit_temperatures_def Let_def variable_row_def)
  have 3: "row_local R ?f3"
    by (rule row_local_if) (simp_all add: row_local_limit_lattice_temperature Tl row_local_id)
  have 4: "row_local R ?f4"
    by (rule row_local_if) (simp_all add: row_local_limit_carrier_temperature Tn row_local_id)
  have 5: "row_local R ?f5"
    by (rule row_local_if) (simp_all add: row_local_limit_carrier_temperature Tp row_local_id)
  show ?thesis
    unfolding eq by (rule row_local_comp [OF row_local_comp [OF 3 4] 5])
qed

lemma row_local_limit_temperatures_node:
  assumes "region_type (fst rn) = SemiconductorRegion"
  shows "row_local (set (node_rows rn))
           (limit_temperatures U T xx (fst rn) (local_offset (snd rn)))"
  by (rule row_local_limit_temperatures)
    (simp_all add: variable_row_in_node_rows semiconductor_region_variables [OF assms])

lemma limit_temperatures_frame:
  assumes "enable_Tl (get_advanced_model (fst rn)) \<Longrightarrow> j \<noteq> variable_row rn TEMPERATURE"
    and "enable_Tn (get_advanced_model (fst rn)) \<Longrightarrow> j \<noteq> variable_row rn E_TEMP"
    and "enable_Tp (get_advanced_model (fst rn)) \<Longrightarrow> j \<noteq> variable_row rn H_TEMP"
  shows "limit_temperatures U T xx (fst rn) (local_offset (snd rn)) ww ! j = ww ! j"
  using assms
  by (simp add: limit_temperatures_def Let_def variable_row_def nth_limit_lattice_temperature
      nth_limit_carrier_temperature)

subsection \<open>\<^verbatim>\<open>potential_damping\<close>: the first loop\<close>

lemma row_local_potential_damping_clip:
  assumes "region_type (fst rn) = SemiconductorRegion"
  shows "row_local (set (node_rows rn)) (potential_damping_clip U T xx (fst rn) (snd rn))"
proof -
  let ?R = "set (node_rows rn)"
  let ?f1 = "limit_carrier_density U (variable_row rn ELECTRON)"
  let ?f2 = "limit_carrier_density U (variable_row rn HOLE)"
  let ?f3 = "limit_temperatures U T xx (fst rn) (local_offset (snd rn))"
  note vars = semiconductor_region_variables [OF assms]
  have eq: "potential_damping_clip U T xx (fst rn) (snd rn) = (\<lambda>ww. ?f3 (?f2 (?f1 ww)))"
    by (rule ext) (simp add: potential_damping_clip_def Let_def variable_row_def)
  have 1: "row_local ?R ?f1"
    by (rule row_local_limit_carrier_density) (rule variable_row_in_node_rows, rule vars)
  have 2: "row_local ?R ?f2"
    by (rule row_local_limit_carrier_density) (rule variable_row_in_node_rows, rule vars)
  have 3: "row_local ?R ?f3"
    using assms by (rule row_local_limit_temperatures_node)
  show ?thesis
    unfolding eq by (rule row_local_comp [OF row_local_comp [OF 1 2] 3])
qed

lemma row_local_scan_step:
  "row_local (set (node_rows rn))
     (\<lambda>w. if region_type (fst rn) \<noteq> SemiconductorRegion then w
          else potential_damping_clip U T xx (fst rn) (snd rn) w)"
  by (rule row_local_if) (simp_all add: row_local_id row_local_potential_damping_clip)

lemma potential_damping_scan_flat:
  "potential_damping_scan U T regions xx yy ww
      = fold (\<lambda>rn st. if region_type (fst rn) \<noteq> SemiconductorRegion then st
                   else potential_damping_node U T xx yy (fst rn) (snd rn) st)
          (region_nodes regions) (0, ww)"
  unfolding potential_damping_scan_def
  by (rule fold_region_nodes [where P = "\<lambda>r. region_type r \<noteq> SemiconductorRegion"])

lemma snd_fold_scan:
  "snd (fold (\<lambda>rn st. if region_type (fst rn) \<noteq> SemiconductorRegion then st
                   else potential_damping_node U T xx yy (fst rn) (snd rn) st) ks st)
     = fold (\<lambda>rn w. if region_type (fst rn) \<noteq> SemiconductorRegion then w
                   else potential_damping_clip U T xx (fst rn) (snd rn) w) ks (snd st)"
  by (induction ks arbitrary: st) (simp_all add: potential_damping_node_def Let_def)

lemma snd_potential_damping_scan:
  "snd (potential_damping_scan U T regions xx yy ww)
     = fold (\<lambda>rn w. if region_type (fst rn) \<noteq> SemiconductorRegion then w
                   else potential_damping_clip U T xx (fst rn) (snd rn) w)
         (region_nodes regions) ww"
  by (simp add: potential_damping_scan_flat snd_fold_scan)

lemma length_snd_potential_damping_scan [simp]:
  "length (snd (potential_damping_scan U T regions xx yy ww)) = length ww"
  unfolding snd_potential_damping_scan
  by (rule fold_steps_length) (rule row_local_length [OF row_local_scan_step])


lemma potential_damping_scan_nth:
  assumes "distinct (device_rows regions)" and "rn \<in> set (region_nodes regions)"
    and "j \<in> set (node_rows rn)"
  shows "snd (potential_damping_scan U T regions xx yy ww) ! j
           = (if region_type (fst rn) \<noteq> SemiconductorRegion then ww
              else potential_damping_clip U T xx (fst rn) (snd rn) ww) ! j"
  unfolding snd_potential_damping_scan
proof (rule fold_steps_local [where rows = node_rows])
  show "distinct (concat (map node_rows (region_nodes regions)))"
    using assms(1) by (simp add: device_rows_def)
  show "rn \<in> set (region_nodes regions)" by fact
  show "j \<in> set (node_rows rn)" by fact
  show "row_local (set (node_rows k))
          (\<lambda>w. if region_type (fst k) \<noteq> SemiconductorRegion then w
               else potential_damping_clip U T xx (fst k) (snd k) w)" for k
    by (rule row_local_scan_step)
qed

lemma fst_potential_damping_node:
  "fst (potential_damping_node U T xx yy (fst rn) (snd rn) st)
     = max (fst st) \<bar>yy ! variable_row rn POTENTIAL\<bar>"
  by (simp add: potential_damping_node_def Let_def variable_row_def max_def)

lemma fst_fold_scan:
  "fst (fold (\<lambda>rn st. if region_type (fst rn) \<noteq> SemiconductorRegion then st
                   else potential_damping_node U T xx yy (fst rn) (snd rn) st) ks st)
     = Max (insert (fst st) ((\<lambda>rn. \<bar>yy ! variable_row rn POTENTIAL\<bar>) `
              {rn \<in> set ks. region_type (fst rn) = SemiconductorRegion}))"
proof (induction ks arbitrary: st)
  case Nil
  then show ?case by simp
next
  case (Cons k ks)
  let ?f = "\<lambda>rn st. if region_type (fst rn) \<noteq> SemiconductorRegion then st
                   else potential_damping_node U T xx yy (fst rn) (snd rn) st"
  let ?a = "\<lambda>rn. \<bar>yy ! variable_row rn POTENTIAL\<bar>"
  let ?S = "?a ` {rn \<in> set ks. region_type (fst rn) = SemiconductorRegion}"
  have fin: "finite ?S" by simp
  have step: "fst (fold ?f (k # ks) st) = Max (insert (fst (?f k st)) ?S)"
    using Cons.IH [of "?f k st"] by simp
  show ?case
  proof (cases "region_type (fst k) = SemiconductorRegion")
    case False
    then have "{rn \<in> set (k # ks). region_type (fst rn) = SemiconductorRegion}
                = {rn \<in> set ks. region_type (fst rn) = SemiconductorRegion}"
      by auto
    then show ?thesis unfolding step using False by simp
  next
    case True
    then have set_eq: "?a ` {rn \<in> set (k # ks). region_type (fst rn) = SemiconductorRegion}
                = insert (?a k) ?S"
      by auto
    have "fst (?f k st) = max (fst st) (?a k)"
      using True by (simp add: fst_potential_damping_node)
    then have "fst (fold ?f (k # ks) st) = Max (insert (max (fst st) (?a k)) ?S)"
      unfolding step by simp
    also have "\<dots> = Max (insert (fst st) (insert (?a k) ?S))"
      using fin by (rule Max_insert_max)
    finally show ?thesis unfolding set_eq .
  qed
qed

lemma fst_potential_damping_scan:
  "fst (potential_damping_scan U T regions xx yy ww) = semiconductor_dV_max regions yy"
  by (simp add: potential_damping_scan_flat fst_fold_scan semiconductor_dV_max_def)

subsection \<open>\<^verbatim>\<open>potential_damping\<close>: the second loop\<close>

lemma potential_damping_psi_flat:
  "potential_damping_psi f regions xx yy ww
     = fold (\<lambda>rn w. w[variable_row rn POTENTIAL :=
                       xx ! variable_row rn POTENTIAL - f * yy ! variable_row rn POTENTIAL])
         (region_nodes regions) ww"
  unfolding potential_damping_psi_def variable_row_def
  by (rule fold_all_region_nodes)

lemma row_local_psi_step:
  "row_local (set (node_rows rn)) (\<lambda>w. w[variable_row rn POTENTIAL := c])"
  by (rule row_local_update_always) (simp_all add: POTENTIAL_row_in_node_rows)

lemma length_potential_damping_psi [simp]:
  "length (potential_damping_psi f regions xx yy ww) = length ww"
  unfolding potential_damping_psi_flat
  by (rule fold_steps_length) simp


lemma potential_damping_psi_nth:
  assumes "distinct (device_rows regions)" and "rn \<in> set (region_nodes regions)"
    and "j \<in> set (node_rows rn)"
  shows "potential_damping_psi f regions xx yy ww ! j
           = ww[variable_row rn POTENTIAL :=
                  xx ! variable_row rn POTENTIAL - f * yy ! variable_row rn POTENTIAL] ! j"
  unfolding potential_damping_psi_flat
proof (rule fold_steps_local [where rows = node_rows])
  show "distinct (concat (map node_rows (region_nodes regions)))"
    using assms(1) by (simp add: device_rows_def)
  show "rn \<in> set (region_nodes regions)" by fact
  show "j \<in> set (node_rows rn)" by fact
  show "row_local (set (node_rows k))
          (\<lambda>w. w[variable_row k POTENTIAL :=
                   xx ! variable_row k POTENTIAL - f * yy ! variable_row k POTENTIAL])" for k
    by (rule row_local_psi_step)
qed

subsection \<open>\<^verbatim>\<open>potential_damping\<close>: the circuit nodes\<close>

lemma length_potential_damping_ckt_node [simp]:
  "length (potential_damping_ckt_node ckt xx yy n ww) = length ww"
  by (simp add: potential_damping_ckt_node_def Let_def)

lemma nth_potential_damping_ckt_node:
  "potential_damping_ckt_node ckt xx yy n ww ! j
     = (if j = array_offset_x ckt n \<and> j < length ww
        then (if is_current_node ckt n \<and> \<bar>yy ! j\<bar> > 1
              then xx ! j - 1 / \<bar>yy ! j\<bar> * yy ! j
              else if is_voltage_node ckt n \<and> \<bar>yy ! j\<bar> > 5
              then xx ! j - 5 / \<bar>yy ! j\<bar> * yy ! j
              else ww ! j)
        else ww ! j)"
  by (simp add: potential_damping_ckt_node_def Let_def nth_list_update_if)

lemma fold_potential_damping_ckt_node_frame:
  assumes "j \<notin> set (circuit_rows_x ckt)"
  shows "fold (potential_damping_ckt_node ckt xx yy) [0..<n_ckt_nodes ckt] ww ! j = ww ! j"
proof (rule fold_steps_frame [where rows = "\<lambda>n. [array_offset_x ckt n]"])
  show "\<forall>k\<in>set [0..<n_ckt_nodes ckt]. j \<notin> set [array_offset_x ckt k]"
    using assms by (auto simp: circuit_rows_x_def)
qed (simp add: nth_potential_damping_ckt_node)




text \<open>The candidate at a device row: the circuit loop does not reach it.\<close>

lemma potential_damping_device_row:
  assumes layout: "layout_ok regions ckt (length ww)"
    and j: "j \<in> set (device_rows regions)"
  shows "fst (potential_damping U T regions ckt is_last remote xx yy ww) ! j
           = (if Parallel_max remote (semiconductor_dV_max regions yy) > 1 / 10 ^ 6
              then potential_damping_psi
                     (potential_damping_factor U T
                        (Parallel_max remote (semiconductor_dV_max regions yy)))
                     regions xx yy (snd (potential_damping_scan U T regions xx yy ww))
              else snd (potential_damping_scan U T regions xx yy ww)) ! j"
proof -
  have "j \<notin> set (circuit_rows_x ckt)"
    using layout j by (rule layout_ok_device_apart)
  then show ?thesis
    by (simp add: potential_damping_def Let_def fst_potential_damping_scan
        fold_potential_damping_ckt_node_frame)
qed

subsection \<open>Damping of the circuit nodes\<close>

text \<open>A layout for the concrete region and circuit.\<close>

lemma layout_ok_diode: "layout_ok [diode_region] two_node_ckt 5"
  by (simp add: layout_ok_def device_rows_def region_nodes_def node_rows_def variable_row_def
      region_variables_def circuit_rows_x_def circuit_rows_f_def diode_region_def
      two_node_ckt_def standard_offset_def upt_rec)



subsection \<open>The clips, row by row\<close>

lemma limit_temperatures_eq:
  "limit_temperatures U T xx (fst rn) (local_offset (snd rn)) ww
     = (let ww3 = (if enable_Tl (get_advanced_model (fst rn))
                   then limit_lattice_temperature U T (variable_row rn TEMPERATURE) ww
                   else ww);
            ww4 = (if enable_Tn (get_advanced_model (fst rn))
                   then limit_carrier_temperature T xx (variable_row rn ELECTRON)
                          (variable_row rn E_TEMP) ww3
                   else ww3)
        in if enable_Tp (get_advanced_model (fst rn))
           then limit_carrier_temperature T xx (variable_row rn HOLE)
                  (variable_row rn H_TEMP) ww4
           else ww4)"
  by (simp add: limit_temperatures_def Let_def variable_row_def)

lemma potential_damping_clip_eq:
  "potential_damping_clip U T xx (fst rn) (snd rn) ww
     = limit_temperatures U T xx (fst rn) (local_offset (snd rn))
         (limit_carrier_density U (variable_row rn HOLE)
            (limit_carrier_density U (variable_row rn ELECTRON) ww))"
  by (simp add: potential_damping_clip_def Let_def variable_row_def)

lemma semiconductor_rows_apart:
  assumes semi: "region_type (fst rn) = SemiconductorRegion"
    and d: "distinct (node_rows rn)"
  shows "variable_row rn POTENTIAL \<noteq> variable_row rn ELECTRON"
    and "variable_row rn POTENTIAL \<noteq> variable_row rn HOLE"
    and "variable_row rn ELECTRON \<noteq> variable_row rn HOLE"
    and "enable_Tl (get_advanced_model (fst rn)) \<Longrightarrow>
           variable_row rn TEMPERATURE \<noteq> variable_row rn POTENTIAL
           \<and> variable_row rn TEMPERATURE \<noteq> variable_row rn ELECTRON
           \<and> variable_row rn TEMPERATURE \<noteq> variable_row rn HOLE"
    and "enable_Tn (get_advanced_model (fst rn)) \<Longrightarrow>
           variable_row rn E_TEMP \<noteq> variable_row rn POTENTIAL
           \<and> variable_row rn E_TEMP \<noteq> variable_row rn ELECTRON
           \<and> variable_row rn E_TEMP \<noteq> variable_row rn HOLE"
    and "enable_Tp (get_advanced_model (fst rn)) \<Longrightarrow>
           variable_row rn H_TEMP \<noteq> variable_row rn POTENTIAL
           \<and> variable_row rn H_TEMP \<noteq> variable_row rn ELECTRON
           \<and> variable_row rn H_TEMP \<noteq> variable_row rn HOLE"
    and "enable_Tl (get_advanced_model (fst rn)) \<Longrightarrow> enable_Tn (get_advanced_model (fst rn))
           \<Longrightarrow> variable_row rn TEMPERATURE \<noteq> variable_row rn E_TEMP"
    and "enable_Tl (get_advanced_model (fst rn)) \<Longrightarrow> enable_Tp (get_advanced_model (fst rn))
           \<Longrightarrow> variable_row rn TEMPERATURE \<noteq> variable_row rn H_TEMP"
    and "enable_Tn (get_advanced_model (fst rn)) \<Longrightarrow> enable_Tp (get_advanced_model (fst rn))
           \<Longrightarrow> variable_row rn E_TEMP \<noteq> variable_row rn H_TEMP"
proof -
  note vars = POTENTIAL_in_region_variables [of "fst rn"] semiconductor_region_variables [OF semi]
  note ne = variable_rows_distinct [OF d]
  show "variable_row rn POTENTIAL \<noteq> variable_row rn ELECTRON"
    by (rule ne) (simp_all add: vars)
  show "variable_row rn POTENTIAL \<noteq> variable_row rn HOLE"
    by (rule ne) (simp_all add: vars)
  show "variable_row rn ELECTRON \<noteq> variable_row rn HOLE"
    by (rule ne) (simp_all add: vars)
  show "variable_row rn TEMPERATURE \<noteq> variable_row rn POTENTIAL
           \<and> variable_row rn TEMPERATURE \<noteq> variable_row rn ELECTRON
           \<and> variable_row rn TEMPERATURE \<noteq> variable_row rn HOLE"
    if "enable_Tl (get_advanced_model (fst rn))"
    by (intro conjI; rule ne) (simp_all add: vars that)
  show "variable_row rn E_TEMP \<noteq> variable_row rn POTENTIAL
           \<and> variable_row rn E_TEMP \<noteq> variable_row rn ELECTRON
           \<and> variable_row rn E_TEMP \<noteq> variable_row rn HOLE"
    if "enable_Tn (get_advanced_model (fst rn))"
    by (intro conjI; rule ne) (simp_all add: vars that)
  show "variable_row rn H_TEMP \<noteq> variable_row rn POTENTIAL
           \<and> variable_row rn H_TEMP \<noteq> variable_row rn ELECTRON
           \<and> variable_row rn H_TEMP \<noteq> variable_row rn HOLE"
    if "enable_Tp (get_advanced_model (fst rn))"
    by (intro conjI; rule ne) (simp_all add: vars that)
  show "variable_row rn TEMPERATURE \<noteq> variable_row rn E_TEMP"
    if "enable_Tl (get_advanced_model (fst rn))" "enable_Tn (get_advanced_model (fst rn))"
    by (rule ne) (simp_all add: vars that)
  show "variable_row rn TEMPERATURE \<noteq> variable_row rn H_TEMP"
    if "enable_Tl (get_advanced_model (fst rn))" "enable_Tp (get_advanced_model (fst rn))"
    by (rule ne) (simp_all add: vars that)
  show "variable_row rn E_TEMP \<noteq> variable_row rn H_TEMP"
    if "enable_Tn (get_advanced_model (fst rn))" "enable_Tp (get_advanced_model (fst rn))"
    by (rule ne) (simp_all add: vars that)
qed

lemma semiconductor_rows_range:
  assumes semi: "region_type (fst rn) = SemiconductorRegion"
    and r: "\<forall>j \<in> set (node_rows rn). j < len"
  shows "variable_row rn POTENTIAL < len"
    and "variable_row rn ELECTRON < len"
    and "variable_row rn HOLE < len"
    and "enable_Tl (get_advanced_model (fst rn)) \<Longrightarrow> variable_row rn TEMPERATURE < len"
    and "enable_Tn (get_advanced_model (fst rn)) \<Longrightarrow> variable_row rn E_TEMP < len"
    and "enable_Tp (get_advanced_model (fst rn)) \<Longrightarrow> variable_row rn H_TEMP < len"
proof -
  note vars = POTENTIAL_in_region_variables [of "fst rn"] semiconductor_region_variables [OF semi]
  have rg: "variable_row rn a < len" if "a \<in> set (region_variables (fst rn))" for a
    using r variable_row_in_node_rows [OF that] by blast
  show "variable_row rn POTENTIAL < len" "variable_row rn ELECTRON < len"
    "variable_row rn HOLE < len"
    by (rule rg, rule vars)+
  show "variable_row rn TEMPERATURE < len" if "enable_Tl (get_advanced_model (fst rn))"
    by (rule rg) (rule vars(4) [OF that])
  show "variable_row rn E_TEMP < len" if "enable_Tn (get_advanced_model (fst rn))"
    by (rule rg) (rule vars(5) [OF that])
  show "variable_row rn H_TEMP < len" if "enable_Tp (get_advanced_model (fst rn))"
    by (rule rg) (rule vars(6) [OF that])
qed

text \<open>What \<open>limit_temperatures\<close> leaves at each row of a semiconductor node.\<close>

lemma limit_temperatures_rows:
  assumes semi: "region_type (fst rn) = SemiconductorRegion"
    and d: "distinct (node_rows rn)"
    and r: "\<forall>j \<in> set (node_rows rn). j < length v"
  shows "limit_temperatures U T xx (fst rn) (local_offset (snd rn)) v ! variable_row rn POTENTIAL
           = v ! variable_row rn POTENTIAL"
    and "limit_temperatures U T xx (fst rn) (local_offset (snd rn)) v ! variable_row rn ELECTRON
           = v ! variable_row rn ELECTRON"
    and "limit_temperatures U T xx (fst rn) (local_offset (snd rn)) v ! variable_row rn HOLE
           = v ! variable_row rn HOLE"
    and "enable_Tl (get_advanced_model (fst rn)) \<Longrightarrow>
           limit_temperatures U T xx (fst rn) (local_offset (snd rn)) v
             ! variable_row rn TEMPERATURE
           = max (v ! variable_row rn TEMPERATURE) (T - 50 * unit_K U)"
    and "enable_Tn (get_advanced_model (fst rn)) \<Longrightarrow>
           limit_temperatures U T xx (fst rn) (local_offset (snd rn)) v ! variable_row rn E_TEMP
           = carrier_T1 T (xx ! variable_row rn ELECTRON) (v ! variable_row rn ELECTRON)
               (xx ! variable_row rn E_TEMP) (v ! variable_row rn E_TEMP)
             * v ! variable_row rn ELECTRON"
    and "enable_Tp (get_advanced_model (fst rn)) \<Longrightarrow>
           limit_temperatures U T xx (fst rn) (local_offset (snd rn)) v ! variable_row rn H_TEMP
           = carrier_T1 T (xx ! variable_row rn HOLE) (v ! variable_row rn HOLE)
               (xx ! variable_row rn H_TEMP) (v ! variable_row rn H_TEMP)
             * v ! variable_row rn HOLE"
proof -
  let ?am = "get_advanced_model (fst rn)"
  let ?psi = "variable_row rn POTENTIAL" and ?n = "variable_row rn ELECTRON"
  let ?p = "variable_row rn HOLE" and ?Tl = "variable_row rn TEMPERATURE"
  let ?Tn = "variable_row rn E_TEMP" and ?Tp = "variable_row rn H_TEMP"
  note ap = semiconductor_rows_apart [OF semi d]
  note rg = semiconductor_rows_range [OF semi r]
  define v3 where "v3 = (if enable_Tl ?am then limit_lattice_temperature U T ?Tl v else v)"
  define v4 where "v4 = (if enable_Tn ?am then limit_carrier_temperature T xx ?n ?Tn v3 else v3)"
  define v5 where "v5 = (if enable_Tp ?am then limit_carrier_temperature T xx ?p ?Tp v4 else v4)"
  have eq: "limit_temperatures U T xx (fst rn) (local_offset (snd rn)) v = v5"
    by (simp add: limit_temperatures_eq Let_def v3_def v4_def v5_def)
  have len: "length v3 = length v" "length v4 = length v"
    by (simp_all add: v3_def v4_def)
  have s3: "v3 ! j = v ! j" if "enable_Tl ?am \<Longrightarrow> ?Tl \<noteq> j" for j
    using that by (auto simp: v3_def nth_limit_lattice_temperature)
  have s4: "v4 ! j = v3 ! j" if "enable_Tn ?am \<Longrightarrow> ?Tn \<noteq> j" for j
    using that by (auto simp: v4_def nth_limit_carrier_temperature)
  have s5: "v5 ! j = v4 ! j" if "enable_Tp ?am \<Longrightarrow> ?Tp \<noteq> j" for j
    using that by (auto simp: v5_def nth_limit_carrier_temperature)
  have keep: "v5 ! j = v ! j"
    if "enable_Tl ?am \<Longrightarrow> ?Tl \<noteq> j" "enable_Tn ?am \<Longrightarrow> ?Tn \<noteq> j"
      "enable_Tp ?am \<Longrightarrow> ?Tp \<noteq> j" for j
    using that by (simp add: s3 s4 s5)
  show "limit_temperatures U T xx (fst rn) (local_offset (snd rn)) v ! ?psi = v ! ?psi"
    unfolding eq using ap(4-6) by (intro keep) simp_all
  show "limit_temperatures U T xx (fst rn) (local_offset (snd rn)) v ! ?n = v ! ?n"
    unfolding eq using ap(4-6) by (intro keep) simp_all
  show "limit_temperatures U T xx (fst rn) (local_offset (snd rn)) v ! ?p = v ! ?p"
    unfolding eq using ap(4-6) by (intro keep) simp_all
  show "limit_temperatures U T xx (fst rn) (local_offset (snd rn)) v ! ?Tl
           = max (v ! ?Tl) (T - 50 * unit_K U)"
    if Tl: "enable_Tl ?am"
  proof -
    have "v5 ! ?Tl = v4 ! ?Tl"
      using ap(8) [OF Tl] by (intro s5) simp
    also have "\<dots> = v3 ! ?Tl"
      using ap(7) [OF Tl] by (intro s4) simp
    also have "\<dots> = max (v ! ?Tl) (T - 50 * unit_K U)"
      using Tl rg(4) [OF Tl] by (simp add: v3_def nth_limit_lattice_temperature)
    finally show ?thesis unfolding eq .
  qed
  show "limit_temperatures U T xx (fst rn) (local_offset (snd rn)) v ! ?Tn
           = carrier_T1 T (xx ! ?n) (v ! ?n) (xx ! ?Tn) (v ! ?Tn) * v ! ?n"
    if Tn: "enable_Tn ?am"
  proof -
    have n3: "v3 ! ?n = v ! ?n"
      using ap(4) by (intro s3) simp
    have T3: "v3 ! ?Tn = v ! ?Tn"
      using ap(7) [OF _ Tn] by (intro s3) simp
    have "v5 ! ?Tn = v4 ! ?Tn"
      using ap(9) [OF Tn] by (intro s5) (simp add: neq_commute)
    also have "\<dots> = carrier_T1 T (xx ! ?n) (v3 ! ?n) (xx ! ?Tn) (v3 ! ?Tn) * v3 ! ?n"
      using Tn rg(5) [OF Tn] by (simp add: v4_def nth_limit_carrier_temperature len)
    finally show ?thesis unfolding eq n3 T3 .
  qed
  show "limit_temperatures U T xx (fst rn) (local_offset (snd rn)) v ! ?Tp
           = carrier_T1 T (xx ! ?p) (v ! ?p) (xx ! ?Tp) (v ! ?Tp) * v ! ?p"
    if Tp: "enable_Tp ?am"
  proof -
    have p4: "v4 ! ?p = v ! ?p"
      using ap(4,5) by (simp add: s3 s4)
    have T4: "v4 ! ?Tp = v ! ?Tp"
      using ap(8) [OF _ Tp] ap(9) [OF _ Tp] by (simp add: s3 s4)
    have "v5 ! ?Tp = carrier_T1 T (xx ! ?p) (v4 ! ?p) (xx ! ?Tp) (v4 ! ?Tp) * v4 ! ?p"
      using Tp rg(6) [OF Tp] by (simp add: v5_def nth_limit_carrier_temperature len)
    then show ?thesis unfolding eq p4 T4 .
  qed
qed


text \<open>What the first loop of \<^verbatim>\<open>potential_damping\<close> leaves at each row of a semiconductor node.\<close>

lemma potential_damping_clip_rows:
  assumes semi: "region_type (fst rn) = SemiconductorRegion"
    and d: "distinct (node_rows rn)"
    and r: "\<forall>j \<in> set (node_rows rn). j < length ww"
  shows "potential_damping_clip U T xx (fst rn) (snd rn) ww ! variable_row rn POTENTIAL
           = ww ! variable_row rn POTENTIAL"
    and "potential_damping_clip U T xx (fst rn) (snd rn) ww ! variable_row rn ELECTRON
           = max (ww ! variable_row rn ELECTRON) (onePerCMC U)"
    and "potential_damping_clip U T xx (fst rn) (snd rn) ww ! variable_row rn HOLE
           = max (ww ! variable_row rn HOLE) (onePerCMC U)"
    and "enable_Tl (get_advanced_model (fst rn)) \<Longrightarrow>
           potential_damping_clip U T xx (fst rn) (snd rn) ww ! variable_row rn TEMPERATURE
           = max (ww ! variable_row rn TEMPERATURE) (T - 50 * unit_K U)"
    and "enable_Tn (get_advanced_model (fst rn)) \<Longrightarrow>
           potential_damping_clip U T xx (fst rn) (snd rn) ww ! variable_row rn E_TEMP
           = carrier_T1 T (xx ! variable_row rn ELECTRON)
               (max (ww ! variable_row rn ELECTRON) (onePerCMC U))
               (xx ! variable_row rn E_TEMP) (ww ! variable_row rn E_TEMP)
             * max (ww ! variable_row rn ELECTRON) (onePerCMC U)"
    and "enable_Tp (get_advanced_model (fst rn)) \<Longrightarrow>
           potential_damping_clip U T xx (fst rn) (snd rn) ww ! variable_row rn H_TEMP
           = carrier_T1 T (xx ! variable_row rn HOLE)
               (max (ww ! variable_row rn HOLE) (onePerCMC U))
               (xx ! variable_row rn H_TEMP) (ww ! variable_row rn H_TEMP)
             * max (ww ! variable_row rn HOLE) (onePerCMC U)"
proof -
  let ?n = "variable_row rn ELECTRON" and ?p = "variable_row rn HOLE"
  note ap = semiconductor_rows_apart [OF semi d]
  note rg = semiconductor_rows_range [OF semi r]
  define v2 where "v2 = limit_carrier_density U ?p (limit_carrier_density U ?n ww)"
  have eq: "potential_damping_clip U T xx (fst rn) (snd rn) ww
              = limit_temperatures U T xx (fst rn) (local_offset (snd rn)) v2"
    by (simp add: potential_damping_clip_eq v2_def)
  have len: "length v2 = length ww"
    by (simp add: v2_def)
  have r2: "\<forall>j \<in> set (node_rows rn). j < length v2"
    using r by (simp add: len)
  have keep: "v2 ! j = ww ! j" if "?n \<noteq> j" "?p \<noteq> j" for j
    using that by (auto simp: v2_def nth_limit_carrier_density)
  have n2: "v2 ! ?n = max (ww ! ?n) (onePerCMC U)"
    using ap(3) rg(2) by (simp add: v2_def nth_limit_carrier_density)
  have p2: "v2 ! ?p = max (ww ! ?p) (onePerCMC U)"
    using ap(3) rg(3) by (simp add: v2_def nth_limit_carrier_density)
  note lt = limit_temperatures_rows [OF semi d r2, of U T xx]
  show "potential_damping_clip U T xx (fst rn) (snd rn) ww ! variable_row rn POTENTIAL
           = ww ! variable_row rn POTENTIAL"
    unfolding eq lt(1) using ap(1,2) by (intro keep) simp_all
  show "potential_damping_clip U T xx (fst rn) (snd rn) ww ! ?n = max (ww ! ?n) (onePerCMC U)"
    unfolding eq lt(2) by (rule n2)
  show "potential_damping_clip U T xx (fst rn) (snd rn) ww ! ?p = max (ww ! ?p) (onePerCMC U)"
    unfolding eq lt(3) by (rule p2)
  show "potential_damping_clip U T xx (fst rn) (snd rn) ww ! variable_row rn TEMPERATURE
           = max (ww ! variable_row rn TEMPERATURE) (T - 50 * unit_K U)"
    if Tl: "enable_Tl (get_advanced_model (fst rn))"
  proof -
    have "v2 ! variable_row rn TEMPERATURE = ww ! variable_row rn TEMPERATURE"
      using ap(4) [OF Tl] by (intro keep) simp_all
    then show ?thesis unfolding eq lt(4) [OF Tl] by simp
  qed
  show "potential_damping_clip U T xx (fst rn) (snd rn) ww ! variable_row rn E_TEMP
           = carrier_T1 T (xx ! ?n) (max (ww ! ?n) (onePerCMC U))
               (xx ! variable_row rn E_TEMP) (ww ! variable_row rn E_TEMP)
             * max (ww ! ?n) (onePerCMC U)"
    if Tn: "enable_Tn (get_advanced_model (fst rn))"
  proof -
    have "v2 ! variable_row rn E_TEMP = ww ! variable_row rn E_TEMP"
      using ap(5) [OF Tn] by (intro keep) simp_all
    then show ?thesis unfolding eq lt(5) [OF Tn] n2 by simp
  qed
  show "potential_damping_clip U T xx (fst rn) (snd rn) ww ! variable_row rn H_TEMP
           = carrier_T1 T (xx ! ?p) (max (ww ! ?p) (onePerCMC U))
               (xx ! variable_row rn H_TEMP) (ww ! variable_row rn H_TEMP)
             * max (ww ! ?p) (onePerCMC U)"
    if Tp: "enable_Tp (get_advanced_model (fst rn))"
  proof -
    have "v2 ! variable_row rn H_TEMP = ww ! variable_row rn H_TEMP"
      using ap(6) [OF Tp] by (intro keep) simp_all
    then show ?thesis unfolding eq lt(6) [OF Tp] p2 by simp
  qed
qed

text \<open>The candidate that \<^verbatim>\<open>potential_damping\<close> returns, at a row of a node.\<close>

lemma potential_damping_node_row:
  assumes layout: "layout_ok regions ckt (length ww)"
    and rn: "rn \<in> set (region_nodes regions)"
    and j: "j \<in> set (node_rows rn)"
    and big: "1 / 10 ^ 6 < Parallel_max remote (semiconductor_dV_max regions yy)"
  shows "fst (potential_damping U T regions ckt is_last remote xx yy ww) ! j
           = (if j = variable_row rn POTENTIAL
              then xx ! j - potential_damping_factor U T
                              (Parallel_max remote (semiconductor_dV_max regions yy)) * yy ! j
              else (if region_type (fst rn) \<noteq> SemiconductorRegion then ww
                    else potential_damping_clip U T xx (fst rn) (snd rn) ww) ! j)"
proof -
  let ?f = "potential_damping_factor U T (Parallel_max remote (semiconductor_dV_max regions yy))"
  let ?w1 = "snd (potential_damping_scan U T regions xx yy ww)"
  let ?psi = "variable_row rn POTENTIAL"
  have dev: "j \<in> set (device_rows regions)"
    using node_rows_subset [OF rn] j by auto
  have dist: "distinct (device_rows regions)"
    using layout by (rule layout_ok_device_distinct)
  have range: "j < length ww"
    using layout dev by (rule layout_ok_device_range)
  have "fst (potential_damping U T regions ckt is_last remote xx yy ww) ! j
          = potential_damping_psi ?f regions xx yy ?w1 ! j"
    using big by (simp add: potential_damping_device_row [OF layout dev])
  also have "\<dots> = ?w1[?psi := xx ! ?psi - ?f * yy ! ?psi] ! j"
    using dist rn j by (rule potential_damping_psi_nth)
  also have "\<dots> = (if j = ?psi then xx ! j - ?f * yy ! j else ?w1 ! j)"
    using range by (simp add: nth_list_update_if)
  also have "?w1 ! j = (if region_type (fst rn) \<noteq> SemiconductorRegion then ww
                        else potential_damping_clip U T xx (fst rn) (snd rn) ww) ! j"
    using dist rn j by (rule potential_damping_scan_nth)
  finally show ?thesis .
qed


subsection \<open>Potential damping of the device rows\<close>

text \<open>
  C2 as stated fails in its last part. On the concrete region, with the step
  \<open>y\<^sub>\<psi> = 1\<close> (so that \<open>\<Delta>V_max = 1 > 10\<^sup>-\<^sup>6\<close>) and the trial electron density 0, the
  candidate that \<^verbatim>\<open>potential_damping\<close> returns has the electron density 1, the value of
  \<^verbatim>\<open>onePerCMC\<close>: a component that is not \<open>\<psi>\<close> has lost its trial value.
\<close>

theorem potential_damping_non_psi_counterexample:
  "fst (potential_damping plain_units 300 [diode_region] two_node_ckt True []
          [0, 5, 5, 1, 1] [1, 0, 0, 0, 0] [- 1, 0, 7, 2, 0]) ! 1 = 1
   \<and> [- 1, 0, 7, 2, 0 :: real] ! 1 = 0
   \<and> fst (potential_damping_scan plain_units 300 [diode_region]
           [0, 5, 5, 1, 1] [1, 0, 0, 0, 0] [- 1, 0, 7, 2, 0]) = 1"
  by (simp add: potential_damping_def potential_damping_scan_def potential_damping_node_def
      potential_damping_clip_def limit_temperatures_def limit_carrier_density_def
      potential_damping_psi_def potential_damping_ckt_node_def Parallel_max_def onePerCMC_def
      plain_units_def diode_region_def two_node_ckt_def standard_offset_def Let_def upt_rec)

text \<open>
  C2, amended. Let the rows be laid out as \<open>layout_ok\<close> says and let the reduced
  \<open>\<Delta>V_max\<close>, the maximum of \<open>|y\<^sub>\<psi>|\<close> over the semiconductor on-processor nodes and of the
  other processors' maxima, exceed \<open>10\<^sup>-\<^sup>6\<close>. Then at every on-processor node of every
  region the \<open>\<psi>\<close> component of the candidate is \<open>x\<^sub>\<psi> - f\<cdot>y\<^sub>\<psi>\<close> with
  \<open>f = ln (1 + \<Delta>V_max/V\<^sub>t) / (\<Delta>V_max/V\<^sub>t)\<close> and \<open>V\<^sub>t = k\<^sub>B\<cdot>T_ext/e\<close>. The other
  components are kept at the nodes of the regions that are not semiconductor; at a
  semiconductor node they are clipped: \<open>n\<close> and \<open>p\<close> are raised to \<^verbatim>\<open>onePerCMC\<close>, \<open>Tl\<close> (when
  enabled) to \<open>T_ext - 50 K\<close>, and \<open>n\<cdot>Tn\<close>, \<open>p\<cdot>Tp\<close> (when enabled) are recomputed from the
  temperature \<open>carrier_T1\<close> and the clipped density.
\<close>

theorem potential_damping_psi_update:
  assumes layout: "layout_ok regions ckt (length ww)"
    and rn: "rn \<in> set (region_nodes regions)"
    and big: "1 / 10 ^ 6 < Parallel_max remote (semiconductor_dV_max regions yy)"
  shows "fst (potential_damping U T regions ckt is_last remote xx yy ww)
           ! variable_row rn POTENTIAL
         = xx ! variable_row rn POTENTIAL
           - ln (1 + Parallel_max remote (semiconductor_dV_max regions yy)
                      / (unit_kb U * T / unit_e U))
             / (Parallel_max remote (semiconductor_dV_max regions yy)
                / (unit_kb U * T / unit_e U))
             * yy ! variable_row rn POTENTIAL
       \<and> (region_type (fst rn) = SemiconductorRegion \<longrightarrow>
            fst (potential_damping U T regions ckt is_last remote xx yy ww)
              ! variable_row rn ELECTRON
            = max (ww ! variable_row rn ELECTRON) (onePerCMC U)
          \<and> fst (potential_damping U T regions ckt is_last remote xx yy ww)
              ! variable_row rn HOLE
            = max (ww ! variable_row rn HOLE) (onePerCMC U)
          \<and> (enable_Tl (get_advanced_model (fst rn)) \<longrightarrow>
               fst (potential_damping U T regions ckt is_last remote xx yy ww)
                 ! variable_row rn TEMPERATURE
               = max (ww ! variable_row rn TEMPERATURE) (T - 50 * unit_K U))
          \<and> (enable_Tn (get_advanced_model (fst rn)) \<longrightarrow>
               fst (potential_damping U T regions ckt is_last remote xx yy ww)
                 ! variable_row rn E_TEMP
               = carrier_T1 T (xx ! variable_row rn ELECTRON)
                   (max (ww ! variable_row rn ELECTRON) (onePerCMC U))
                   (xx ! variable_row rn E_TEMP) (ww ! variable_row rn E_TEMP)
                 * max (ww ! variable_row rn ELECTRON) (onePerCMC U))
          \<and> (enable_Tp (get_advanced_model (fst rn)) \<longrightarrow>
               fst (potential_damping U T regions ckt is_last remote xx yy ww)
                 ! variable_row rn H_TEMP
               = carrier_T1 T (xx ! variable_row rn HOLE)
                   (max (ww ! variable_row rn HOLE) (onePerCMC U))
                   (xx ! variable_row rn H_TEMP) (ww ! variable_row rn H_TEMP)
                 * max (ww ! variable_row rn HOLE) (onePerCMC U)))
       \<and> (region_type (fst rn) \<noteq> SemiconductorRegion \<longrightarrow>
            (\<forall>v \<in> set (region_variables (fst rn)). v \<noteq> POTENTIAL \<longrightarrow>
               fst (potential_damping U T regions ckt is_last remote xx yy ww)
                 ! variable_row rn v
               = ww ! variable_row rn v))"
proof -
  let ?w' = "fst (potential_damping U T regions ckt is_last remote xx yy ww)"
  let ?psi = "variable_row rn POTENTIAL"
  have d: "distinct (node_rows rn)"
    using layout_ok_device_distinct [OF layout] rn by (rule node_rows_distinct)
  have r: "\<forall>j \<in> set (node_rows rn). j < length ww"
    using layout_ok_device_range [OF layout] node_rows_subset [OF rn] by blast
  note row = potential_damping_node_row [OF layout rn _ big, where U = U and T = T
    and is_last = is_last and xx = xx]
  have psi: "?w' ! ?psi
         = xx ! ?psi
           - ln (1 + Parallel_max remote (semiconductor_dV_max regions yy)
                      / (unit_kb U * T / unit_e U))
             / (Parallel_max remote (semiconductor_dV_max regions yy)
                / (unit_kb U * T / unit_e U))
             * yy ! ?psi"
    using row [OF POTENTIAL_row_in_node_rows]
    by (simp add: potential_damping_factor_def Let_def)
  have semi: "?w' ! variable_row rn v
                = potential_damping_clip U T xx (fst rn) (snd rn) ww ! variable_row rn v"
    if "region_type (fst rn) = SemiconductorRegion" "v \<in> set (region_variables (fst rn))"
      "v \<noteq> POTENTIAL" for v
  proof -
    have "variable_row rn v \<noteq> ?psi"
      using d that(2) POTENTIAL_in_region_variables that(3) by (rule variable_rows_distinct)
    then show ?thesis
      using row [OF variable_row_in_node_rows [OF that(2)]] that(1) by simp
  qed
  have other: "?w' ! variable_row rn v = ww ! variable_row rn v"
    if "region_type (fst rn) \<noteq> SemiconductorRegion" "v \<in> set (region_variables (fst rn))"
      "v \<noteq> POTENTIAL" for v
  proof -
    have "variable_row rn v \<noteq> ?psi"
      using d that(2) POTENTIAL_in_region_variables that(3) by (rule variable_rows_distinct)
    then show ?thesis
      using row [OF variable_row_in_node_rows [OF that(2)]] that(1) by simp
  qed
  show ?thesis
  proof (intro conjI impI ballI)
    show "?w' ! ?psi
         = xx ! ?psi
           - ln (1 + Parallel_max remote (semiconductor_dV_max regions yy)
                      / (unit_kb U * T / unit_e U))
             / (Parallel_max remote (semiconductor_dV_max regions yy)
                / (unit_kb U * T / unit_e U))
             * yy ! ?psi"
      by (rule psi)
  next
    assume s: "region_type (fst rn) = SemiconductorRegion"
    note vars = semiconductor_region_variables [OF s]
    note clip = potential_damping_clip_rows [OF s d r, of U T xx]
    show "?w' ! variable_row rn ELECTRON = max (ww ! variable_row rn ELECTRON) (onePerCMC U)"
      using semi [OF s vars(1)] clip(2) by simp
    show "?w' ! variable_row rn HOLE = max (ww ! variable_row rn HOLE) (onePerCMC U)"
      using semi [OF s vars(2)] clip(3) by simp
    show "?w' ! variable_row rn TEMPERATURE
            = max (ww ! variable_row rn TEMPERATURE) (T - 50 * unit_K U)"
      if "enable_Tl (get_advanced_model (fst rn))"
      using semi [OF s vars(3) [OF that]] clip(4) [OF that] by simp
    show "?w' ! variable_row rn E_TEMP
            = carrier_T1 T (xx ! variable_row rn ELECTRON)
                (max (ww ! variable_row rn ELECTRON) (onePerCMC U))
                (xx ! variable_row rn E_TEMP) (ww ! variable_row rn E_TEMP)
              * max (ww ! variable_row rn ELECTRON) (onePerCMC U)"
      if "enable_Tn (get_advanced_model (fst rn))"
      using semi [OF s vars(4) [OF that]] clip(5) [OF that] by simp
    show "?w' ! variable_row rn H_TEMP
            = carrier_T1 T (xx ! variable_row rn HOLE)
                (max (ww ! variable_row rn HOLE) (onePerCMC U))
                (xx ! variable_row rn H_TEMP) (ww ! variable_row rn H_TEMP)
              * max (ww ! variable_row rn HOLE) (onePerCMC U)"
      if "enable_Tp (get_advanced_model (fst rn))"
      using semi [OF s vars(5) [OF that]] clip(6) [OF that] by simp
  next
    fix v
    assume "region_type (fst rn) \<noteq> SemiconductorRegion"
      "v \<in> set (region_variables (fst rn))" "v \<noteq> POTENTIAL"
    then show "?w' ! variable_row rn v = ww ! variable_row rn v"
      by (rule other)
  qed
qed


lemma diode_region_nodes:
  "region_nodes [diode_region] = [(diode_region, \<lparr>local_offset = 0, node_data = steady_data\<rparr>)]"
  by (simp add: region_nodes_def diode_region_def)

lemma diode_dV_max: "semiconductor_dV_max [diode_region] [1, 0, 0, 0, 0] = 1"
  by (simp add: semiconductor_dV_max_def diode_region_nodes variable_row_def)
    (simp add: diode_region_def standard_offset_def)

theorem potential_damping_psi_update_witness:
  "layout_ok [diode_region] two_node_ckt (length [- 1, 0, 7, 2, 0 :: real])
   \<and> 1 / 10 ^ 6 < Parallel_max [] (semiconductor_dV_max [diode_region] [1, 0, 0, 0, 0])
   \<and> fst (potential_damping plain_units 300 [diode_region] two_node_ckt True []
            [0, 5, 5, 1, 1] [1, 0, 0, 0, 0] [- 1, 0, 7, 2, 0]) ! 0
       = 0 - ln (1 + 1 / 300) / (1 / 300) * 1
   \<and> fst (potential_damping plain_units 300 [diode_region] two_node_ckt True []
            [0, 5, 5, 1, 1] [1, 0, 0, 0, 0] [- 1, 0, 7, 2, 0]) ! 1 = 1
   \<and> fst (potential_damping plain_units 300 [diode_region] two_node_ckt True []
            [0, 5, 5, 1, 1] [1, 0, 0, 0, 0] [- 1, 0, 7, 2, 0]) ! 2 = 7"
proof -
  let ?node = "\<lparr>local_offset = 0, node_data = steady_data\<rparr>"
  have len: "length [- 1, 0, 7, 2, 0 :: real] = 5"
    by simp
  have l: "layout_ok [diode_region] two_node_ckt (length [- 1, 0, 7, 2, 0 :: real])"
    unfolding len by (rule layout_ok_diode)
  have rn: "(diode_region, ?node) \<in> set (region_nodes [diode_region])"
    by (simp add: diode_region_nodes)
  have big: "1 / 10 ^ 6 < Parallel_max [] (semiconductor_dV_max [diode_region] [1, 0, 0, 0, 0])"
    by (simp add: diode_dV_max Parallel_max_def)
  have rows: "variable_row (diode_region, ?node) POTENTIAL = 0"
    "variable_row (diode_region, ?node) ELECTRON = 1"
    "variable_row (diode_region, ?node) HOLE = 2"
    by (simp_all add: variable_row_def diode_region_def standard_offset_def)
  have semi: "region_type (fst (diode_region, ?node)) = SemiconductorRegion"
    by (simp add: diode_region_def)
  have one: "onePerCMC plain_units = 1" "unit_kb plain_units * 300 / unit_e plain_units = 300"
    by (simp_all add: onePerCMC_def plain_units_def)
  show ?thesis
    using l big
      potential_damping_psi_update [OF l rn big, of plain_units 300 True "[0, 5, 5, 1, 1]"]
    unfolding rows one diode_dV_max using semi
    by (simp add: Parallel_max_def)
qed

subsection \<open>\<^verbatim>\<open>LTE_norm\<close>: the loop over the regions\<close>

lemma LTE_region_Inr:
  assumes "region_type region \<noteq> InvalidRegion"
  shows "LTE_region eps_r eps_a xx region st
           = Inr (fold (\<lambda>fvm_node. LTE_node eps_r eps_a xx (region, fvm_node))
                    (on_processor_nodes region) (fst st),
                  snd st + LTE_region_count region)"
proof -
  have skip: "fold (\<lambda>fvm_node ll. ll) ns ll = ll" for ns :: "FVM_Node list" and ll :: Vec
    by (induction ns) simp_all
  show ?thesis
    using assms
    by (cases "region_type region")
      (simp_all add: LTE_region_def LTE_node_def [abs_def] LTE_region_count_def skip)
qed

lemma LTE_regions_Inr:
  assumes "\<forall>region \<in> set regions. region_type region \<noteq> InvalidRegion"
  shows "LTE_regions eps_r eps_a xx regions st
           = Inr (fold (LTE_node eps_r eps_a xx) (region_nodes regions) (fst st),
                  snd st + (\<Sum>region \<leftarrow> regions. LTE_region_count region))"
  using assms
proof (induction regions arbitrary: st)
  case Nil
  then show ?case by (simp add: region_nodes_def)
next
  case (Cons r rs)
  have rn: "region_nodes (r # rs) = map (Pair r) (on_processor_nodes r) @ region_nodes rs"
    by (simp add: region_nodes_def)
  show ?case
    using Cons.prems Cons.IH
    by (simp add: LTE_region_Inr rn fold_map comp_def add.assoc)
qed

lemma LTE_regions_Inl:
  assumes "\<exists>region \<in> set regions. region_type region = InvalidRegion"
  shows "LTE_regions eps_r eps_a xx regions st = Inl GeniusError"
  using assms
proof (induction regions arbitrary: st)
  case Nil
  then show ?case by simp
next
  case (Cons r rs)
  show ?case
  proof (cases "region_type r = InvalidRegion")
    case True
    then show ?thesis by (simp add: LTE_region_def)
  next
    case False
    then have "\<exists>region \<in> set rs. region_type region = InvalidRegion"
      using Cons.prems by auto
    then show ?thesis
      using Cons.IH False by (simp add: LTE_region_Inr)
  qed
qed

subsection \<open>\<^verbatim>\<open>LTE_norm\<close>: scaling a list of rows\<close>

lemma length_LTE_scale [simp]: "length (LTE_scale eps_r eps_a xx i_f i_x ll) = length ll"
  by (simp add: LTE_scale_def)

lemma nth_LTE_scale:
  "LTE_scale eps_r eps_a xx i_f i_x ll ! j
     = (if j = i_f \<and> i_f < length ll then ll ! i_f / (eps_r * xx ! i_x + eps_a) else ll ! j)"
  by (simp add: LTE_scale_def nth_list_update_if)

lemma length_fold_LTE_scale [simp]:
  "length (fold (\<lambda>i. LTE_scale eps_r eps_a xx i i) rs ll) = length ll"
  by (induction rs arbitrary: ll) simp_all

lemma fold_LTE_scale_nth:
  assumes "distinct rs" and "\<forall>i \<in> set rs. i < length ll"
  shows "fold (\<lambda>i. LTE_scale eps_r eps_a xx i i) rs ll ! j
           = (if j \<in> set rs then ll ! j / (eps_r * xx ! j + eps_a) else ll ! j)"
  using assms
proof (induction rs arbitrary: ll)
  case Nil
  then show ?case by simp
next
  case (Cons i rs)
  have "fold (\<lambda>i. LTE_scale eps_r eps_a xx i i) (i # rs) ll ! j
          = fold (\<lambda>i. LTE_scale eps_r eps_a xx i i) rs (LTE_scale eps_r eps_a xx i i ll) ! j"
    by simp
  also have "\<dots> = (if j \<in> set rs
                     then LTE_scale eps_r eps_a xx i i ll ! j / (eps_r * xx ! j + eps_a)
                     else LTE_scale eps_r eps_a xx i i ll ! j)"
    using Cons.prems by (intro Cons.IH) simp_all
  also have "\<dots> = (if j \<in> set (i # rs) then ll ! j / (eps_r * xx ! j + eps_a) else ll ! j)"
    using Cons.prems by (auto simp: nth_LTE_scale)
  finally show ?case .
qed

lemma row_local_LTE_scale:
  assumes "i \<in> R"
  shows "row_local R (LTE_scale eps_r eps_a xx i i_x)"
proof -
  have eq: "LTE_scale eps_r eps_a xx i i_x
              = (\<lambda>ll. ll[i := ll ! i / (eps_r * xx ! i_x + eps_a)])"
    by (rule ext) (simp add: LTE_scale_def)
  show ?thesis
    unfolding eq by (rule row_local_update_always) (use assms in auto)
qed

lemma row_local_fold_LTE_scale:
  assumes "set rs \<subseteq> R"
  shows "row_local R (fold (\<lambda>i. LTE_scale eps_r eps_a xx i i) rs)"
  using assms
proof (induction rs)
  case Nil
  then show ?case by (simp add: row_local_id [unfolded id_def] row_local_def)
next
  case (Cons i rs)
  have 1: "row_local R (LTE_scale eps_r eps_a xx i i)"
    using Cons.prems by (intro row_local_LTE_scale) simp
  have 2: "row_local R (fold (\<lambda>i. LTE_scale eps_r eps_a xx i i) rs)"
    using Cons.prems by (intro Cons.IH) simp
  have "fold (\<lambda>i. LTE_scale eps_r eps_a xx i i) (i # rs)
          = (\<lambda>ll. fold (\<lambda>i. LTE_scale eps_r eps_a xx i i) rs (LTE_scale eps_r eps_a xx i i ll))"
    by (rule ext) simp
  then show ?case
    using row_local_comp [OF 1 2] by simp
qed

subsection \<open>\<^verbatim>\<open>LTE_norm\<close>: the step at a node\<close>

lemma LTE_node_eq:
  assumes "region_type (fst rn) \<noteq> VacuumRegion" and "region_type (fst rn) \<noteq> InvalidRegion"
  shows "LTE_node eps_r eps_a xx rn ll
           = fold (\<lambda>i. LTE_scale eps_r eps_a xx i i) (tl (node_rows rn))
               (ll[variable_row rn POTENTIAL := 0])"
  using assms
  by (cases "region_type (fst rn)")
    (simp_all add: LTE_node_def LTE_semiconductor_node_def LTE_insulator_node_def Let_def
      node_rows_def region_variables_def variable_row_def)


lemma region_variables_Cons:
  "region_variables region = POTENTIAL # tl (region_variables region)"
  by (simp add: region_variables_def)

lemma node_rows_Cons:
  "node_rows rn = variable_row rn POTENTIAL # tl (node_rows rn)"
  by (simp add: node_rows_def region_variables_def)

lemma other_variable_row_in_tl:
  assumes "v \<in> set (region_variables (fst rn))" and "v \<noteq> POTENTIAL"
  shows "variable_row rn v \<in> set (tl (node_rows rn))"
proof -
  have "v \<in> set (tl (region_variables (fst rn)))"
    using assms region_variables_Cons [of "fst rn"] by (metis set_ConsD)
  then show ?thesis
    by (simp add: node_rows_def map_tl [symmetric])
qed

lemma row_local_LTE_node:
  "row_local (set (node_rows rn)) (LTE_node eps_r eps_a xx rn)"
proof (cases "region_type (fst rn) = VacuumRegion \<or> region_type (fst rn) = InvalidRegion")
  case True
  then have "LTE_node eps_r eps_a xx rn = (\<lambda>ll. ll)"
    by (auto simp: LTE_node_def fun_eq_iff)
  then show ?thesis by (simp add: row_local_id)
next
  case False
  then have eq: "LTE_node eps_r eps_a xx rn
      = (\<lambda>ll. fold (\<lambda>i. LTE_scale eps_r eps_a xx i i) (tl (node_rows rn))
                 (ll[variable_row rn POTENTIAL := 0]))"
    by (intro ext LTE_node_eq) simp_all
  have sub: "set (tl (node_rows rn)) \<subseteq> set (node_rows rn)"
    by (metis node_rows_Cons set_subset_Cons)
  have 1: "row_local (set (node_rows rn)) (\<lambda>ll::Vec. ll[variable_row rn POTENTIAL := 0])"
    by (rule row_local_psi_step)
  have 2: "row_local (set (node_rows rn))
             (fold (\<lambda>i. LTE_scale eps_r eps_a xx i i) (tl (node_rows rn)))"
    using sub by (rule row_local_fold_LTE_scale)
  show ?thesis
    unfolding eq by (rule row_local_comp [OF 1 2])
qed

lemma LTE_node_rows:
  assumes nv: "region_type (fst rn) \<noteq> VacuumRegion"
    and ni: "region_type (fst rn) \<noteq> InvalidRegion"
    and d: "distinct (node_rows rn)"
    and r: "\<forall>j \<in> set (node_rows rn). j < length ll"
  shows "LTE_node eps_r eps_a xx rn ll ! variable_row rn POTENTIAL = 0"
    and "v \<in> set (region_variables (fst rn)) \<Longrightarrow> v \<noteq> POTENTIAL \<Longrightarrow>
           LTE_node eps_r eps_a xx rn ll ! variable_row rn v
           = ll ! variable_row rn v / (eps_r * xx ! variable_row rn v + eps_a)"
proof -
  let ?psi = "variable_row rn POTENTIAL"
  let ?ll0 = "ll[?psi := 0]"
  have dt: "distinct (tl (node_rows rn))" and psi_tl: "?psi \<notin> set (tl (node_rows rn))"
    using d node_rows_Cons [of rn] by (metis distinct.simps(2))+
  have rt: "\<forall>i \<in> set (tl (node_rows rn)). i < length ?ll0"
    using r node_rows_Cons [of rn] by (metis length_list_update list.set_intros(2))
  have psi_r: "?psi < length ll"
    using r POTENTIAL_row_in_node_rows by blast
  note nth = fold_LTE_scale_nth [OF dt rt, of eps_r eps_a xx]
  show "LTE_node eps_r eps_a xx rn ll ! ?psi = 0"
    unfolding LTE_node_eq [OF nv ni] nth using psi_tl psi_r by simp
  show "LTE_node eps_r eps_a xx rn ll ! variable_row rn v
           = ll ! variable_row rn v / (eps_r * xx ! variable_row rn v + eps_a)"
    if v: "v \<in> set (region_variables (fst rn))" "v \<noteq> POTENTIAL"
  proof -
    have "variable_row rn v \<in> set (tl (node_rows rn))"
      using v by (rule other_variable_row_in_tl)
    moreover from this have "variable_row rn v \<noteq> ?psi"
      using psi_tl by auto
    ultimately show ?thesis
      unfolding LTE_node_eq [OF nv ni] nth by simp
  qed
qed

subsection \<open>\<^verbatim>\<open>LTE_norm\<close>: the rows of the circuit\<close>

lemma layout_ok_circuit_f_distinct: "layout_ok regions ckt len \<Longrightarrow> distinct (circuit_rows_f ckt)"
  by (simp add: layout_ok_def)

lemma layout_ok_circuit_f_apart:
  "layout_ok regions ckt len \<Longrightarrow> j \<in> set (circuit_rows_f ckt) \<Longrightarrow> j \<notin> set (device_rows regions)"
  by (auto simp: layout_ok_def)

lemma layout_ok_device_apart_f:
  "layout_ok regions ckt len \<Longrightarrow> j \<in> set (device_rows regions) \<Longrightarrow> j \<notin> set (circuit_rows_f ckt)"
  by (auto simp: layout_ok_def)

lemma layout_ok_circuit_f_range:
  "layout_ok regions ckt len \<Longrightarrow> j \<in> set (circuit_rows_f ckt) \<Longrightarrow> j < len"
  by (auto simp: layout_ok_def list_all_iff)

lemma circuit_row_f_member:
  "n < n_ckt_nodes ckt \<Longrightarrow> array_offset_f ckt n \<in> set (circuit_rows_f ckt)"
  by (simp add: circuit_rows_f_def)

lemma length_fold_LTE_ckt [simp]:
  "length (fold (\<lambda>n. LTE_scale eps_r eps_a xx (array_offset_f ckt n) (array_offset_x ckt n))
             ns ll) = length ll"
  by (induction ns arbitrary: ll) simp_all

lemma fold_LTE_ckt_frame:
  assumes "j \<notin> set (circuit_rows_f ckt)"
  shows "fold (\<lambda>n. LTE_scale eps_r eps_a xx (array_offset_f ckt n) (array_offset_x ckt n))
           [0..<n_ckt_nodes ckt] ll ! j = ll ! j"
proof (rule fold_steps_frame [where rows = "\<lambda>n. [array_offset_f ckt n]"])
  show "\<forall>k\<in>set [0..<n_ckt_nodes ckt]. j \<notin> set [array_offset_f ckt k]"
    using assms by (auto simp: circuit_rows_f_def)
qed (simp add: nth_LTE_scale)

lemma fold_LTE_ckt_nth:
  assumes dist: "distinct (circuit_rows_f ckt)" and n: "n < n_ckt_nodes ckt"
    and r: "array_offset_f ckt n < length ll"
  shows "fold (\<lambda>n. LTE_scale eps_r eps_a xx (array_offset_f ckt n) (array_offset_x ckt n))
           [0..<n_ckt_nodes ckt] ll ! array_offset_f ckt n
         = ll ! array_offset_f ckt n / (eps_r * xx ! array_offset_x ckt n + eps_a)"
proof -
  have "fold (\<lambda>n. LTE_scale eps_r eps_a xx (array_offset_f ckt n) (array_offset_x ckt n))
           [0..<n_ckt_nodes ckt] ll ! array_offset_f ckt n
         = LTE_scale eps_r eps_a xx (array_offset_f ckt n) (array_offset_x ckt n) ll
             ! array_offset_f ckt n"
  proof (rule fold_steps_local [where rows = "\<lambda>n. [array_offset_f ckt n]"])
    show "distinct (concat (map (\<lambda>n. [array_offset_f ckt n]) [0..<n_ckt_nodes ckt]))"
      using dist by (simp add: circuit_rows_f_def concat_map_singleton)
    show "n \<in> set [0..<n_ckt_nodes ckt]" using n by simp
    show "row_local (set [array_offset_f ckt k])
            (LTE_scale eps_r eps_a xx (array_offset_f ckt k) (array_offset_x ckt k))" for k
      by (rule row_local_LTE_scale) simp
  qed simp
  then show ?thesis
    using r by (simp add: nth_LTE_scale)
qed

subsection \<open>\<^verbatim>\<open>LTE_norm\<close>: the rows of the nodes\<close>

lemma length_fold_LTE_node [simp]:
  "length (fold (LTE_node eps_r eps_a xx) ks ll) = length ll"
  by (rule fold_steps_length) (rule row_local_length [OF row_local_LTE_node])

lemma fold_LTE_node_frame:
  assumes "j \<notin> set (device_rows regions)"
  shows "fold (LTE_node eps_r eps_a xx) (region_nodes regions) ll ! j = ll ! j"
proof (rule fold_steps_frame [where rows = node_rows])
  show "\<forall>rn \<in> set (region_nodes regions). j \<notin> set (node_rows rn)"
    using assms by (auto simp: device_rows_def)
  fix rn v assume "j \<notin> set (node_rows rn)"
  then show "LTE_node eps_r eps_a xx rn v ! j = v ! j"
    by (rule row_local_frame [OF row_local_LTE_node])
qed

lemma fold_LTE_node_nth:
  assumes "distinct (device_rows regions)" and "rn \<in> set (region_nodes regions)"
    and "j \<in> set (node_rows rn)"
  shows "fold (LTE_node eps_r eps_a xx) (region_nodes regions) ll ! j
           = LTE_node eps_r eps_a xx rn ll ! j"
proof (rule fold_steps_local [where rows = node_rows])
  show "distinct (concat (map node_rows (region_nodes regions)))"
    using assms(1) by (simp add: device_rows_def)
  show "rn \<in> set (region_nodes regions)" by fact
  show "j \<in> set (node_rows rn)" by fact
  show "row_local (set (node_rows k)) (LTE_node eps_r eps_a xx k)" for k
    by (rule row_local_LTE_node)
qed

lemma sum_list_LTE_region_count:
  assumes "\<forall>region \<in> set regions. region_type region \<noteq> InvalidRegion"
    and "\<forall>region \<in> set regions. region_type region \<noteq> VacuumRegion
           \<longrightarrow> ebm_n_variables region = length (region_variables region)"
  shows "(\<Sum>region \<leftarrow> regions. LTE_region_count region)
           = (\<Sum>rn \<leftarrow> region_nodes regions.
                 if region_type (fst rn) = VacuumRegion then 0
                 else int (length (region_variables (fst rn))) - 1)"
  using assms
proof (induction regions)
  case Nil
  then show ?case by (simp add: region_nodes_def)
next
  case (Cons r rs)
  have rn: "region_nodes (r # rs) = map (Pair r) (on_processor_nodes r) @ region_nodes rs"
    by (simp add: region_nodes_def)
  have const: "(\<Sum>x \<leftarrow> ns. c) = c * int (length ns)" for c :: int and ns :: "FVM_Node list"
    by (induction ns) (simp_all add: algebra_simps)
  have "LTE_region_count r
          = (\<Sum>fvm_node \<leftarrow> on_processor_nodes r.
                if region_type r = VacuumRegion then 0
                else int (length (region_variables r)) - 1)"
    using Cons.prems by (simp add: LTE_region_count_def const)
  then show ?case
    using Cons.prems Cons.IH by (simp add: rn comp_def)
qed


lemma LTE_scaled_Inr:
  assumes "\<forall>region \<in> set regions. region_type region \<noteq> InvalidRegion"
  shows "LTE_scaled eps_r eps_a regions ckt is_last xx ll
           = Inr (if is_last
                  then fold (\<lambda>n. LTE_scale eps_r eps_a xx (array_offset_f ckt n)
                                    (array_offset_x ckt n))
                         [0..<n_ckt_nodes ckt]
                         (fold (LTE_node eps_r eps_a xx) (region_nodes regions) ll)
                  else fold (LTE_node eps_r eps_a xx) (region_nodes regions) ll,
                  (\<Sum>region \<leftarrow> regions. LTE_region_count region)
                  + (if is_last then int (n_ckt_nodes ckt) else 0))"
  by (simp add: LTE_scaled_def LTE_regions_Inr [OF assms] LTE_ckt_def)

subsection \<open>The scaled truncation error\<close>

text \<open>
  C4, amended. When no region has an invalid type, the rows are laid out as \<open>layout_ok\<close>
  says and every region that is not vacuum counts the variables it keeps, \<^verbatim>\<open>LTE_norm\<close>
  returns, and leaves an \<open>LTE\<close> vector in which the \<open>\<psi>\<close> row of every node of a region
  that is not vacuum is 0, every other row \<open>i\<close> of such a node holds
  \<open>e\<^sub>i / (\<epsilon>\<^sub>r\<cdot>x\<^sub>i + \<epsilon>\<^sub>a)\<close>, with \<open>x\<^sub>i\<close> itself and not its absolute value, and on the last
  processor the row of every circuit node is scaled in the same way by the node's
  solution. The value returned is \<open>\<parallel>LTE\<parallel>\<^sub>2 / \<surd>N\<close> when the count \<open>N\<close> of these components,
  summed over the processors, is positive, and 1 otherwise.
\<close>

theorem LTE_norm_scaled_error:
  assumes valid: "\<forall>region \<in> set regions. region_type region \<noteq> InvalidRegion"
    and layout: "layout_ok regions ckt (length (snd (LTE_predict S x x_n x_n1 x_n2 xp LTE)))"
    and nvars: "\<forall>region \<in> set regions. region_type region \<noteq> VacuumRegion
                  \<longrightarrow> ebm_n_variables region = length (region_variables region)"
  shows "\<exists>r ll.
           LTE_norm S regions ckt is_last remote remote_N x x_n x_n1 x_n2 xp LTE
             = Inr (r, fst (LTE_predict S x x_n x_n1 x_n2 xp LTE), ll)
         \<and> (\<forall>rn \<in> set (region_nodes regions). region_type (fst rn) \<noteq> VacuumRegion \<longrightarrow>
               ll ! variable_row rn POTENTIAL = 0
             \<and> (\<forall>v \<in> set (region_variables (fst rn)). v \<noteq> POTENTIAL \<longrightarrow>
                   ll ! variable_row rn v
                   = snd (LTE_predict S x x_n x_n1 x_n2 xp LTE) ! variable_row rn v
                     / (TS_rtol S * x ! variable_row rn v + TS_atol S)))
         \<and> (is_last \<longrightarrow>
               (\<forall>n < n_ckt_nodes ckt.
                   ll ! array_offset_f ckt n
                   = snd (LTE_predict S x x_n x_n1 x_n2 xp LTE) ! array_offset_f ckt n
                     / (TS_rtol S * x ! array_offset_x ckt n + TS_atol S)))
         \<and> r = (if 0 < Parallel_sum remote_N (LTE_unmasked_count regions ckt is_last)
                then sqrt (Parallel_sum remote (\<Sum>c \<leftarrow> ll. c * c))
                     / sqrt (real_of_int
                               (Parallel_sum remote_N (LTE_unmasked_count regions ckt is_last)))
                else 1)"
proof -
  let ?e = "snd (LTE_predict S x x_n x_n1 x_n2 xp LTE)"
  let ?er = "TS_rtol S" and ?ea = "TS_atol S"
  let ?ll1 = "fold (LTE_node ?er ?ea x) (region_nodes regions) ?e"
  let ?ckt = "fold (\<lambda>n. LTE_scale ?er ?ea x (array_offset_f ckt n) (array_offset_x ckt n))
                [0..<n_ckt_nodes ckt]"
  let ?N = "Parallel_sum remote_N (LTE_unmasked_count regions ckt is_last)"
  define ll where "ll = (if is_last then ?ckt ?ll1 else ?ll1)"
  define r where "r = (if 0 < ?N then sqrt (Parallel_sum remote (\<Sum>c \<leftarrow> ll. c * c))
                                      / sqrt (real_of_int ?N) else 1)"
  have count: "(\<Sum>region \<leftarrow> regions. LTE_region_count region)
                 + (if is_last then int (n_ckt_nodes ckt) else 0)
               = LTE_unmasked_count regions ckt is_last"
    by (simp add: sum_list_LTE_region_count [OF valid nvars] LTE_unmasked_count_def)
  have scaled: "LTE_scaled ?er ?ea regions ckt is_last x ?e
                  = Inr (ll, LTE_unmasked_count regions ckt is_last)"
    unfolding LTE_scaled_Inr [OF valid] count ll_def by simp
  have norm: "LTE_norm S regions ckt is_last remote remote_N x x_n x_n1 x_n2 xp LTE
                = Inr (r, fst (LTE_predict S x x_n x_n1 x_n2 xp LTE), ll)"
    by (simp add: LTE_norm_def Let_def scaled r_def VecNorm_2_def)
  have dist: "distinct (device_rows regions)"
    using layout by (rule layout_ok_device_distinct)
  have dev: "ll ! j = LTE_node ?er ?ea x rn ?e ! j"
    if rn: "rn \<in> set (region_nodes regions)" and j: "j \<in> set (node_rows rn)" for rn j
  proof -
    have "j \<in> set (device_rows regions)"
      using node_rows_subset [OF rn] j by auto
    then have "j \<notin> set (circuit_rows_f ckt)"
      using layout by (intro layout_ok_device_apart_f)
    then have "ll ! j = ?ll1 ! j"
      by (simp add: ll_def fold_LTE_ckt_frame)
    also have "\<dots> = LTE_node ?er ?ea x rn ?e ! j"
      using dist rn j by (rule fold_LTE_node_nth)
    finally show ?thesis .
  qed
  have device: "ll ! variable_row rn POTENTIAL = 0
             \<and> (\<forall>v \<in> set (region_variables (fst rn)). v \<noteq> POTENTIAL \<longrightarrow>
                   ll ! variable_row rn v
                   = ?e ! variable_row rn v / (?er * x ! variable_row rn v + ?ea))"
    if rn: "rn \<in> set (region_nodes regions)" and nv: "region_type (fst rn) \<noteq> VacuumRegion"
    for rn
  proof -
    have "fst rn \<in> set regions"
      using rn by (auto simp: region_nodes_def)
    then have ni: "region_type (fst rn) \<noteq> InvalidRegion"
      using valid by blast
    have d: "distinct (node_rows rn)"
      using dist rn by (rule node_rows_distinct)
    have rg: "\<forall>j \<in> set (node_rows rn). j < length ?e"
      using layout_ok_device_range [OF layout] node_rows_subset [OF rn] by blast
    note rows = LTE_node_rows [OF nv ni d rg, where eps_r = ?er and eps_a = ?ea and xx = x]
    show ?thesis
    proof (intro conjI ballI impI)
      show "ll ! variable_row rn POTENTIAL = 0"
        using dev [OF rn POTENTIAL_row_in_node_rows] rows(1) by simp
      fix v assume v: "v \<in> set (region_variables (fst rn))" "v \<noteq> POTENTIAL"
      show "ll ! variable_row rn v
              = ?e ! variable_row rn v / (?er * x ! variable_row rn v + ?ea)"
        using dev [OF rn variable_row_in_node_rows [OF v(1)]] rows(2) [OF v] by simp
    qed
  qed
  have circuit: "ll ! array_offset_f ckt n
                   = ?e ! array_offset_f ckt n / (?er * x ! array_offset_x ckt n + ?ea)"
    if last: is_last and n: "n < n_ckt_nodes ckt" for n
  proof -
    have mem: "array_offset_f ckt n \<in> set (circuit_rows_f ckt)"
      using n by (rule circuit_row_f_member)
    have rg: "array_offset_f ckt n < length ?ll1"
      using layout_ok_circuit_f_range [OF layout mem] by simp
    have "array_offset_f ckt n \<notin> set (device_rows regions)"
      using layout mem by (rule layout_ok_circuit_f_apart)
    then have keep: "?ll1 ! array_offset_f ckt n = ?e ! array_offset_f ckt n"
      by (rule fold_LTE_node_frame)
    have "ll ! array_offset_f ckt n = ?ckt ?ll1 ! array_offset_f ckt n"
      using last by (simp add: ll_def)
    also have "\<dots> = ?ll1 ! array_offset_f ckt n / (?er * x ! array_offset_x ckt n + ?ea)"
      using layout_ok_circuit_f_distinct [OF layout] n rg by (rule fold_LTE_ckt_nth)
    finally show ?thesis
      unfolding keep .
  qed
  show ?thesis
  proof (intro exI conjI)
    show "LTE_norm S regions ckt is_last remote remote_N x x_n x_n1 x_n2 xp LTE
            = Inr (r, fst (LTE_predict S x x_n x_n1 x_n2 xp LTE), ll)"
      by (rule norm)
    show "\<forall>rn \<in> set (region_nodes regions). region_type (fst rn) \<noteq> VacuumRegion \<longrightarrow>
               ll ! variable_row rn POTENTIAL = 0
             \<and> (\<forall>v \<in> set (region_variables (fst rn)). v \<noteq> POTENTIAL \<longrightarrow>
                   ll ! variable_row rn v
                   = ?e ! variable_row rn v / (?er * x ! variable_row rn v + ?ea))"
      using device by blast
    show "is_last \<longrightarrow>
               (\<forall>n < n_ckt_nodes ckt.
                   ll ! array_offset_f ckt n
                   = ?e ! array_offset_f ckt n / (?er * x ! array_offset_x ckt n + ?ea))"
      using circuit by blast
    show "r = (if 0 < ?N then sqrt (Parallel_sum remote (\<Sum>c \<leftarrow> ll. c * c))
                                / sqrt (real_of_int ?N) else 1)"
      by (rule r_def)
  qed
qed


text \<open>
  C4 as stated fails where a solution component is negative. With \<open>\<epsilon>\<^sub>r = 1\<close>,
  \<open>\<epsilon>\<^sub>a = 2\<close>, no region and the circuit's voltage node at \<open>x = -1\<close>, the error component
  \<open>e = -1/2\<close> is divided by \<open>\<epsilon>\<^sub>r\<cdot>x + \<epsilon>\<^sub>a = 1\<close>, not by \<open>\<epsilon>\<^sub>r\<cdot>|x| + \<epsilon>\<^sub>a = 3\<close>: the row
  holds \<open>-1/2\<close>, not \<open>-1/6\<close>.
\<close>

theorem LTE_norm_abs_counterexample:
  "LTE_norm lte_spec [] two_node_ckt True [] [] [0, 0, 0, - 1, 0]
     [0, 0, 0, 0, 0] [0, 0, 0, 0, 0] [0, 0, 0, 0, 0] [0, 0, 0, 0, 0] [0, 0, 0, 0, 0]
     = Inr (sqrt (1 / 4) / sqrt 2, [0, 0, 0, 0, 0], [0, 0, 0, - 1 / 2, 0])
   \<and> snd (LTE_predict lte_spec [0, 0, 0, - 1, 0]
           [0, 0, 0, 0, 0] [0, 0, 0, 0, 0] [0, 0, 0, 0, 0] [0, 0, 0, 0, 0] [0, 0, 0, 0, 0]) ! 3
       / (TS_rtol lte_spec * \<bar>[0, 0, 0, - 1, 0] ! 3\<bar> + TS_atol lte_spec) = - 1 / 6"
  by (simp add: LTE_norm_def LTE_scaled_def LTE_ckt_def LTE_scale_def LTE_predict_def
      VecAXPY_def VecZeroEntries_def VecNorm_2_def Parallel_sum_def lte_spec_def
      two_node_ckt_def Let_def upt_rec)

lemma lte_predict_diode:
  "LTE_predict lte_spec [1, 2, 4, - 1, 3]
     [0, 0, 0, 0, 0] [0, 0, 0, 0, 0] [0, 0, 0, 0, 0] [0, 0, 0, 0, 0] [0, 0, 0, 0, 0]
   = ([0, 0, 0, 0, 0], [1 / 2, 1, 2, - 1 / 2, 3 / 2])"
  by (simp add: LTE_predict_def VecAXPY_def VecZeroEntries_def lte_spec_def Let_def)

theorem LTE_norm_scaled_error_witness:
  "(case LTE_norm lte_spec [diode_region] two_node_ckt True [] [] [1, 2, 4, - 1, 3]
           [0, 0, 0, 0, 0] [0, 0, 0, 0, 0] [0, 0, 0, 0, 0] [0, 0, 0, 0, 0] [0, 0, 0, 0, 0]
    of Inl e \<Rightarrow> False
     | Inr (r, xp', ll) \<Rightarrow>
         ll ! 0 = 0 \<and> ll ! 1 = 1 / 4 \<and> ll ! 2 = 1 / 3 \<and> ll ! 3 = - 1 / 2 \<and> ll ! 4 = 3 / 10
         \<and> r = sqrt (\<Sum>c \<leftarrow> ll. c * c) / sqrt 4)"
proof -
  let ?node = "\<lparr>local_offset = 0, node_data = steady_data\<rparr>"
  let ?x = "[1, 2, 4, - 1, 3 :: real]"
  let ?z = "[0, 0, 0, 0, 0 :: real]"
  have valid: "\<forall>region \<in> set [diode_region]. region_type region \<noteq> InvalidRegion"
    by (simp add: diode_region_def)
  have len: "length (snd (LTE_predict lte_spec ?x ?z ?z ?z ?z ?z)) = 5"
    by (simp add: lte_predict_diode)
  have layout: "layout_ok [diode_region] two_node_ckt
                  (length (snd (LTE_predict lte_spec ?x ?z ?z ?z ?z ?z)))"
    unfolding len by (rule layout_ok_diode)
  have nvars: "\<forall>region \<in> set [diode_region]. region_type region \<noteq> VacuumRegion
                  \<longrightarrow> ebm_n_variables region = length (region_variables region)"
    by (simp add: diode_region_def region_variables_def)
  obtain r ll where
    eq: "LTE_norm lte_spec [diode_region] two_node_ckt True [] [] ?x ?z ?z ?z ?z ?z
           = Inr (r, fst (LTE_predict lte_spec ?x ?z ?z ?z ?z ?z), ll)"
    and dev: "\<forall>rn \<in> set (region_nodes [diode_region]).
               region_type (fst rn) \<noteq> VacuumRegion \<longrightarrow>
               ll ! variable_row rn POTENTIAL = 0
             \<and> (\<forall>v \<in> set (region_variables (fst rn)). v \<noteq> POTENTIAL \<longrightarrow>
                   ll ! variable_row rn v
                   = snd (LTE_predict lte_spec ?x ?z ?z ?z ?z ?z) ! variable_row rn v
                     / (TS_rtol lte_spec * ?x ! variable_row rn v + TS_atol lte_spec))"
    and ckt: "True \<longrightarrow> (\<forall>n < n_ckt_nodes two_node_ckt.
                   ll ! array_offset_f two_node_ckt n
                   = snd (LTE_predict lte_spec ?x ?z ?z ?z ?z ?z) ! array_offset_f two_node_ckt n
                     / (TS_rtol lte_spec * ?x ! array_offset_x two_node_ckt n
                        + TS_atol lte_spec))"
    and r: "r = (if 0 < Parallel_sum [] (LTE_unmasked_count [diode_region] two_node_ckt True)
                then sqrt (Parallel_sum [] (\<Sum>c \<leftarrow> ll. c * c))
                     / sqrt (real_of_int
                         (Parallel_sum [] (LTE_unmasked_count [diode_region] two_node_ckt True)))
                else 1)"
    using LTE_norm_scaled_error [OF valid layout nvars, of True "[]" "[]"] by blast
  have rows: "variable_row (diode_region, ?node) POTENTIAL = 0"
    "variable_row (diode_region, ?node) ELECTRON = 1"
    "variable_row (diode_region, ?node) HOLE = 2"
    by (simp_all add: variable_row_def diode_region_def standard_offset_def)
  have vars: "region_variables diode_region = [POTENTIAL, ELECTRON, HOLE]"
    by (simp add: region_variables_def diode_region_def)
  have semi: "region_type diode_region = SemiconductorRegion"
    by (simp add: diode_region_def)
  have eps: "TS_rtol lte_spec = 1" "TS_atol lte_spec = 2"
    by (simp_all add: lte_spec_def)
  have count: "LTE_unmasked_count [diode_region] two_node_ckt True = 4"
    by (simp add: LTE_unmasked_count_def diode_region_nodes vars semi two_node_ckt_def)
  have d: "ll ! 0 = 0 \<and> ll ! 1 = 1 / 4 \<and> ll ! 2 = 1 / 3"
    using dev by (simp add: diode_region_nodes semi vars rows lte_predict_diode eps)
  have c: "ll ! 3 = - 1 / 2 \<and> ll ! 4 = 3 / 10"
    using ckt [rule_format, of 0] ckt [rule_format, of 1]
    by (simp add: two_node_ckt_def lte_predict_diode eps)
  have n: "r = sqrt (\<Sum>c \<leftarrow> ll. c * c) / sqrt 4"
    using r by (simp add: count Parallel_sum_def)
  show ?thesis
    using d c n by (simp add: eq)
qed

subsection \<open>Positive-density damping\<close>


subsection \<open>Positive-density damping with the electron density in row 1\<close>

lemma positive_density_damping_node_standard:
  assumes "ebm_variable_offset (fst rn) ELECTRON = 1"
  shows "positive_density_damping_node U T xx yy (fst rn) (snd rn) ww
           = potential_damping_clip U T xx (fst rn) (snd rn)
               (if \<bar>yy ! variable_row rn POTENTIAL\<bar> > 1
                then ww[variable_row rn POTENTIAL :=
                          xx ! variable_row rn POTENTIAL
                          - std_sign (yy ! variable_row rn POTENTIAL) * 1]
                else ww)"
  using assms
  by (simp add: positive_density_damping_node_def potential_damping_clip_def
      limit_carrier_density_def Let_def variable_row_def)

lemma row_local_positive_density_damping_node:
  assumes "region_type (fst rn) = SemiconductorRegion"
    and "ebm_variable_offset (fst rn) ELECTRON = 1"
  shows "row_local (set (node_rows rn))
           (positive_density_damping_node U T xx yy (fst rn) (snd rn))"
proof -
  let ?psi = "variable_row rn POTENTIAL"
  let ?f = "\<lambda>ww::real list. if (\<lambda>_. \<bar>yy ! ?psi\<bar> > 1) ww
               then ww[?psi := (\<lambda>_. xx ! ?psi - std_sign (yy ! ?psi) * 1) ww] else ww"
  have eq: "positive_density_damping_node U T xx yy (fst rn) (snd rn)
              = (\<lambda>ww. potential_damping_clip U T xx (fst rn) (snd rn) (?f ww))"
    by (rule ext) (simp add: positive_density_damping_node_standard [OF assms(2)])
  have 1: "row_local (set (node_rows rn)) ?f"
    by (rule row_local_update) (simp_all add: POTENTIAL_row_in_node_rows)
  have 2: "row_local (set (node_rows rn)) (potential_damping_clip U T xx (fst rn) (snd rn))"
    using assms(1) by (rule row_local_potential_damping_clip)
  show ?thesis
    unfolding eq by (rule row_local_comp [OF 1 2])
qed

lemma positive_density_damping_flat:
  "fst (positive_density_damping U T regions xx yy ww)
     = fold (\<lambda>rn w. if region_type (fst rn) \<noteq> SemiconductorRegion then w
                   else positive_density_damping_node U T xx yy (fst rn) (snd rn) w)
         (region_nodes regions) ww"
  unfolding positive_density_damping_def Let_def fst_conv
  by (rule fold_region_nodes [where P = "\<lambda>r. region_type r \<noteq> SemiconductorRegion"])

lemma positive_density_damping_nth:
  assumes dist: "distinct (device_rows regions)"
    and std: "\<forall>region \<in> set regions. region_type region = SemiconductorRegion
                \<longrightarrow> ebm_variable_offset region ELECTRON = 1"
    and rn: "rn \<in> set (region_nodes regions)"
    and semi: "region_type (fst rn) = SemiconductorRegion"
    and j: "j \<in> set (node_rows rn)"
  shows "fst (positive_density_damping U T regions xx yy ww) ! j
           = positive_density_damping_node U T xx yy (fst rn) (snd rn) ww ! j"
proof -
  let ?step = "\<lambda>rn w. if region_type (fst rn) \<noteq> SemiconductorRegion then w
                   else positive_density_damping_node U T xx yy (fst rn) (snd rn) w"
  have "fold ?step (region_nodes regions) ww ! j = ?step rn ww ! j"
  proof (rule fold_steps_local [where rows = node_rows])
    show "distinct (concat (map node_rows (region_nodes regions)))"
      using dist by (simp add: device_rows_def)
    show "rn \<in> set (region_nodes regions)" by fact
    show "j \<in> set (node_rows rn)" by fact
    show "row_local (set (node_rows k)) (?step k)" if "k \<in> set (region_nodes regions)" for k
    proof (rule row_local_if)
      show "row_local (set (node_rows k)) (\<lambda>v. v)"
        by (rule row_local_id)
      assume "\<not> region_type (fst k) \<noteq> SemiconductorRegion"
      then have s: "region_type (fst k) = SemiconductorRegion" by simp
      have "fst k \<in> set regions"
        using that by (auto simp: region_nodes_def)
      then have "ebm_variable_offset (fst k) ELECTRON = 1"
        using std s by blast
      with s show "row_local (set (node_rows k))
                     (positive_density_damping_node U T xx yy (fst k) (snd k))"
        by (rule row_local_positive_density_damping_node)
    qed
  qed
  then show ?thesis
    using semi by (simp add: positive_density_damping_flat)
qed


lemma carrier_T1_lower_bound: "0.9 * T \<le> carrier_T1 T n0 n1 w0 w1"
  by (simp add: carrier_T1_def Let_def)

text \<open>
  With the electron density in row 1 of each semiconductor node, the row that line 414
  tests, \<^verbatim>\<open>positive_density_damping\<close> does at every semiconductor node what C5 says.
\<close>

lemma positive_density_damping_standard_layout:
  assumes layout: "layout_ok regions ckt (length ww)"
    and std: "\<forall>region \<in> set regions. region_type region = SemiconductorRegion
                \<longrightarrow> ebm_variable_offset region ELECTRON = 1"
    and rn: "rn \<in> set (region_nodes regions)"
    and semi: "region_type (fst rn) = SemiconductorRegion"
  shows "fst (positive_density_damping U T regions xx yy ww) ! variable_row rn POTENTIAL
           = (if \<bar>yy ! variable_row rn POTENTIAL\<bar> > 1
              then xx ! variable_row rn POTENTIAL - sgn (yy ! variable_row rn POTENTIAL) * 1
              else ww ! variable_row rn POTENTIAL)"
    and "\<bar>ww ! variable_row rn POTENTIAL - xx ! variable_row rn POTENTIAL\<bar>
           \<le> \<bar>yy ! variable_row rn POTENTIAL\<bar> \<Longrightarrow>
         \<bar>fst (positive_density_damping U T regions xx yy ww) ! variable_row rn POTENTIAL
            - xx ! variable_row rn POTENTIAL\<bar> \<le> 1"
    and "fst (positive_density_damping U T regions xx yy ww) ! variable_row rn ELECTRON
           = max (ww ! variable_row rn ELECTRON) (onePerCMC U)"
    and "fst (positive_density_damping U T regions xx yy ww) ! variable_row rn HOLE
           = max (ww ! variable_row rn HOLE) (onePerCMC U)"
    and "enable_Tl (get_advanced_model (fst rn)) \<Longrightarrow>
         fst (positive_density_damping U T regions xx yy ww) ! variable_row rn TEMPERATURE
           = max (ww ! variable_row rn TEMPERATURE) (T - 50 * unit_K U)"
    and "enable_Tn (get_advanced_model (fst rn)) \<Longrightarrow>
         fst (positive_density_damping U T regions xx yy ww) ! variable_row rn E_TEMP
           = carrier_T1 T (xx ! variable_row rn ELECTRON)
               (max (ww ! variable_row rn ELECTRON) (onePerCMC U))
               (xx ! variable_row rn E_TEMP) (ww ! variable_row rn E_TEMP)
             * max (ww ! variable_row rn ELECTRON) (onePerCMC U)"
    and "enable_Tp (get_advanced_model (fst rn)) \<Longrightarrow>
         fst (positive_density_damping U T regions xx yy ww) ! variable_row rn H_TEMP
           = carrier_T1 T (xx ! variable_row rn HOLE)
               (max (ww ! variable_row rn HOLE) (onePerCMC U))
               (xx ! variable_row rn H_TEMP) (ww ! variable_row rn H_TEMP)
             * max (ww ! variable_row rn HOLE) (onePerCMC U)"
proof -
  let ?w' = "fst (positive_density_damping U T regions xx yy ww)"
  let ?psi = "variable_row rn POTENTIAL"
  define w0 where "w0 = (if \<bar>yy ! ?psi\<bar> > 1
                         then ww[?psi := xx ! ?psi - std_sign (yy ! ?psi) * 1] else ww)"
  have dist: "distinct (device_rows regions)"
    using layout by (rule layout_ok_device_distinct)
  have d: "distinct (node_rows rn)"
    using dist rn by (rule node_rows_distinct)
  have r: "\<forall>j \<in> set (node_rows rn). j < length ww"
    using layout_ok_device_range [OF layout] node_rows_subset [OF rn] by blast
  have r0: "\<forall>j \<in> set (node_rows rn). j < length w0"
    using r by (simp add: w0_def)
  have "fst rn \<in> set regions"
    using rn by (auto simp: region_nodes_def)
  then have e1: "ebm_variable_offset (fst rn) ELECTRON = 1"
    using std semi by blast
  note vars = POTENTIAL_in_region_variables [of "fst rn"] semiconductor_region_variables [OF semi]
  note ap = semiconductor_rows_apart [OF semi d]
  note rg = semiconductor_rows_range [OF semi r]
  have row: "?w' ! variable_row rn v
               = potential_damping_clip U T xx (fst rn) (snd rn) w0 ! variable_row rn v"
    if "v \<in> set (region_variables (fst rn))" for v
    using positive_density_damping_nth [OF dist std rn semi variable_row_in_node_rows [OF that]]
    by (simp add: positive_density_damping_node_standard [OF e1] w0_def)
  have keep: "w0 ! j = ww ! j" if "?psi \<noteq> j" for j
    using that by (simp add: w0_def)
  note clip = potential_damping_clip_rows [OF semi d r0, of U T xx]
  have w0psi: "w0 ! ?psi
           = (if \<bar>yy ! ?psi\<bar> > 1 then xx ! ?psi - sgn (yy ! ?psi) * 1 else ww ! ?psi)"
    using rg(1) by (simp add: w0_def std_sign_def)
  show psi: "?w' ! ?psi
           = (if \<bar>yy ! ?psi\<bar> > 1 then xx ! ?psi - sgn (yy ! ?psi) * 1 else ww ! ?psi)"
    unfolding row [OF vars(1)] clip(1) by (rule w0psi)
  show "\<bar>?w' ! ?psi - xx ! ?psi\<bar> \<le> 1" if "\<bar>ww ! ?psi - xx ! ?psi\<bar> \<le> \<bar>yy ! ?psi\<bar>"
  proof (cases "\<bar>yy ! ?psi\<bar> > 1")
    case True
    then have "yy ! ?psi \<noteq> 0" by auto
    then have "\<bar>sgn (yy ! ?psi)\<bar> = 1" by (simp add: abs_sgn_eq)
    then show ?thesis using True by (simp add: psi)
  next
    case False
    then show ?thesis using that by (simp add: psi)
  qed
  show "?w' ! variable_row rn ELECTRON = max (ww ! variable_row rn ELECTRON) (onePerCMC U)"
    using ap(1) by (simp add: row [OF vars(2)] clip(2) keep)
  show "?w' ! variable_row rn HOLE = max (ww ! variable_row rn HOLE) (onePerCMC U)"
    using ap(2) by (simp add: row [OF vars(3)] clip(3) keep)
  show "?w' ! variable_row rn TEMPERATURE
          = max (ww ! variable_row rn TEMPERATURE) (T - 50 * unit_K U)"
    if Tl: "enable_Tl (get_advanced_model (fst rn))"
    using ap(4) [OF Tl] by (simp add: row [OF vars(4) [OF Tl]] clip(4) [OF Tl] keep neq_commute)
  show "?w' ! variable_row rn E_TEMP
           = carrier_T1 T (xx ! variable_row rn ELECTRON)
               (max (ww ! variable_row rn ELECTRON) (onePerCMC U))
               (xx ! variable_row rn E_TEMP) (ww ! variable_row rn E_TEMP)
             * max (ww ! variable_row rn ELECTRON) (onePerCMC U)"
    if Tn: "enable_Tn (get_advanced_model (fst rn))"
    using ap(1) ap(5) [OF Tn]
    by (simp add: row [OF vars(5) [OF Tn]] clip(5) [OF Tn] keep neq_commute)
  show "?w' ! variable_row rn H_TEMP
           = carrier_T1 T (xx ! variable_row rn HOLE)
               (max (ww ! variable_row rn HOLE) (onePerCMC U))
               (xx ! variable_row rn H_TEMP) (ww ! variable_row rn H_TEMP)
             * max (ww ! variable_row rn HOLE) (onePerCMC U)"
    if Tp: "enable_Tp (get_advanced_model (fst rn))"
    using ap(2) ap(6) [OF Tp]
    by (simp add: row [OF vars(6) [OF Tp]] clip(6) [OF Tp] keep neq_commute)
qed

subsection \<open>Accepting a solution and recovering from divergence\<close>

lemma fold_Fill_Value_updated:
  "fold (\<lambda>region. EBM3_Fill_Value region (region_data region))
     (map (\<lambda>region. region\<lparr>region_data := EBM3_Update_Solution region (region_data region) lxx\<rparr>)
        regions) xl
   = fold (\<lambda>region. EBM3_Fill_Value region
                       (EBM3_Update_Solution region (region_data region) lxx)) regions xl"
  by (simp add: fold_map comp_def)

text \<open>
  C6. \<^verbatim>\<open>diverged_recovery\<close> leaves the regions as they are, refills \<open>x\<close> and \<open>L\<close> from the
  data of each region in turn and then from the circuit, and on the last processor, and
  only there, restores the circuit's solution from its snapshot. \<^verbatim>\<open>post_solve_process\<close>
  leaves \<open>x\<close> as it is, hands the scattered \<open>x\<close> to every region and saves the circuit's
  solution as the snapshot, before the base class takes over. The two are symmetric:
  whatever \<open>x\<close>, \<open>L\<close> and the circuit's solution have become after a solution was
  accepted, the recovery on the last processor brings back the circuit's solution of
  that moment and fills \<open>x\<close> and \<open>L\<close> from the data that the regions took then.
\<close>

theorem diverged_recovery_restores_accepted_state:
  fixes s u :: "'d SolverState"
  shows "state_regions (diverged_recovery base is_last u) = state_regions u
       \<and> state_circuit (diverged_recovery base True u) = restore_solution (state_circuit u)
       \<and> ckt_solution (state_circuit (diverged_recovery base True u))
           = ckt_saved_solution (state_circuit u)
       \<and> state_circuit (diverged_recovery base False u) = state_circuit u
       \<and> (state_x (diverged_recovery base is_last u), state_L (diverged_recovery base is_last u))
           = spice_fill_value base (state_circuit (diverged_recovery base is_last u))
               (fold (\<lambda>region. EBM3_Fill_Value region (region_data region))
                  (state_regions u) (state_x u, state_L u))
       \<and> post_solve_process base base_post s = base_post (post_solve_update base s)
       \<and> state_x (post_solve_update base s) = state_x s
       \<and> state_regions (post_solve_update base s)
           = map (\<lambda>region. region\<lparr>region_data :=
                     EBM3_Update_Solution region (region_data region)
                       (scatter base (state_x s) (state_lx s))\<rparr>)
               (state_regions s)
       \<and> state_circuit (post_solve_update base s) = save_solution (state_circuit s)
       \<and> ckt_saved_solution (state_circuit (post_solve_update base s))
           = ckt_solution (state_circuit s)
       \<and> ckt_solution (state_circuit (diverged_recovery base True
            ((post_solve_update base s)
               \<lparr>state_x := x', state_L := L',
                state_circuit := (state_circuit (post_solve_update base s))
                                   \<lparr>ckt_solution := sol'\<rparr>\<rparr>)))
           = ckt_solution (state_circuit s)
       \<and> (state_x (diverged_recovery base True
            ((post_solve_update base s)
               \<lparr>state_x := x', state_L := L',
                state_circuit := (state_circuit (post_solve_update base s))
                                   \<lparr>ckt_solution := sol'\<rparr>\<rparr>)),
          state_L (diverged_recovery base True
            ((post_solve_update base s)
               \<lparr>state_x := x', state_L := L',
                state_circuit := (state_circuit (post_solve_update base s))
                                   \<lparr>ckt_solution := sol'\<rparr>\<rparr>)))
           = spice_fill_value base (save_solution (state_circuit s))
               (fold (\<lambda>region. EBM3_Fill_Value region
                        (EBM3_Update_Solution region (region_data region)
                           (scatter base (state_x s) (state_lx s))))
                  (state_regions s) (x', L'))"
  by (simp add: diverged_recovery_def post_solve_process_def post_solve_update_def Let_def
      restore_solution_def save_solution_def fold_Fill_Value_updated)

end
